theory Spec2Isabelle
  imports Main "HOL-Library.Char_ord" "HOL-Library.List_Lexorder" "HOL-Library.Sublist"
begin

section \<open>Python strings\<close>

text \<open>
  \<^verbatim>\<open>shortcut_creator.py\<close> works on Python \<^verbatim>\<open>str\<close> values. They are modelled as
  \<^typ>\<open>string\<close>, a list of characters, each \<^typ>\<open>char\<close> standing for the code point
  \<open>of_char c\<close> in the range 0..255. The classification of those code points
  (\<^verbatim>\<open>str.isspace\<close>, \<^verbatim>\<open>str.isalnum\<close>, \<^verbatim>\<open>str.lower\<close>) is the one of the Unicode
  database for that range.
\<close>

definition code_point :: "char \<Rightarrow> nat" where
  "code_point c = of_char c"

text \<open>\<^verbatim>\<open>c.isspace()\<close>: TAB..CR, FS..US, space, NEL and the no-break space.\<close>

definition isspace :: "char \<Rightarrow> bool" where
  "isspace c =
     (let n = code_point c
      in (9 \<le> n \<and> n \<le> 13) \<or> (28 \<le> n \<and> n \<le> 32) \<or> n = 133 \<or> n = 160)"

text \<open>
  \<^verbatim>\<open>c.isalnum()\<close>: the ASCII digits and letters, and in the upper half the letters
  (ordinal indicators, micro sign, the accented letters without the two operators at 215
  and 247), the superscript digits and the vulgar fractions.
\<close>

definition isalnum :: "char \<Rightarrow> bool" where
  "isalnum c =
     (let n = code_point c
      in (48 \<le> n \<and> n \<le> 57) \<or> (65 \<le> n \<and> n \<le> 90) \<or> (97 \<le> n \<and> n \<le> 122)
         \<or> n = 170 \<or> n = 178 \<or> n = 179 \<or> n = 181 \<or> n = 185 \<or> n = 186
         \<or> (188 \<le> n \<and> n \<le> 190)
         \<or> (192 \<le> n \<and> n \<le> 214) \<or> (216 \<le> n \<and> n \<le> 246) \<or> (248 \<le> n \<and> n \<le> 255))"

text \<open>\<^verbatim>\<open>c.lower()\<close>: the capital letters A..Z and the accented capitals move up by 32.\<close>

definition lower_char :: "char \<Rightarrow> char" where
  "lower_char c =
     (let n = code_point c
      in if (65 \<le> n \<and> n \<le> 90) \<or> (192 \<le> n \<and> n \<le> 214) \<or> (216 \<le> n \<and> n \<le> 222)
         then char_of (n + 32) else c)"

definition lower :: "string \<Rightarrow> string" where
  "lower s = map lower_char s"

text \<open>\<^verbatim>\<open>s.strip()\<close> and \<^verbatim>\<open>s.strip(chars)\<close>.\<close>

definition lstrip :: "string \<Rightarrow> string" where
  "lstrip s = dropWhile isspace s"

definition rstrip :: "string \<Rightarrow> string" where
  "rstrip s = rev (dropWhile isspace (rev s))"

definition strip :: "string \<Rightarrow> string" where
  "strip s = rstrip (lstrip s)"

definition strip_chars :: "string \<Rightarrow> string \<Rightarrow> string" where
  "strip_chars cs s =
     rev (dropWhile (\<lambda>c. c \<in> set cs) (rev (dropWhile (\<lambda>c. c \<in> set cs) s)))"

text \<open>\<^verbatim>\<open>s.startswith(p)\<close>, \<^verbatim>\<open>s.endswith(p)\<close> and \<^verbatim>\<open>p in s\<close>.\<close>

definition startswith :: "string \<Rightarrow> string \<Rightarrow> bool" where
  "startswith s p = (take (length p) s = p)"

definition endswith :: "string \<Rightarrow> string \<Rightarrow> bool" where
  "endswith s p = startswith (rev s) (rev p)"

fun contains :: "string \<Rightarrow> string \<Rightarrow> bool" where
  "contains [] p = (p = [])"
| "contains (c # cs) p = (startswith (c # cs) p \<or> contains cs p)"

text \<open>
  \<^verbatim>\<open>s.split(sep)\<close> for a separator of one character: the result is never empty, and
  the empty string splits into one empty field.
\<close>

fun split_on :: "char \<Rightarrow> string \<Rightarrow> string list" where
  "split_on sep [] = [[]]"
| "split_on sep (c # cs) =
     (if c = sep then [] # split_on sep cs
      else (case split_on sep cs of
              [] \<Rightarrow> [[c]]
            | w # ws \<Rightarrow> (c # w) # ws))"

text \<open>\<^verbatim>\<open>s.split(sep, 1)\<close> on a string that holds the separator: the two fields.\<close>

definition split_once :: "char \<Rightarrow> string \<Rightarrow> string \<times> string" where
  "split_once sep s = (takeWhile (\<lambda>c. c \<noteq> sep) s, drop 1 (dropWhile (\<lambda>c. c \<noteq> sep) s))"

text \<open>
  \<^verbatim>\<open>s.split()\<close>: the maximal runs of characters that are not whitespace. The first
  argument holds the run being read, last character first.
\<close>

fun split_ws_from :: "string \<Rightarrow> string \<Rightarrow> string list" where
  "split_ws_from cur [] = (if cur = [] then [] else [rev cur])"
| "split_ws_from cur (c # cs) =
     (if isspace c
      then (if cur = [] then split_ws_from [] cs else rev cur # split_ws_from [] cs)
      else split_ws_from (c # cur) cs)"

definition split_ws :: "string \<Rightarrow> string list" where
  "split_ws s = split_ws_from [] s"

text \<open>
  \<^verbatim>\<open>s.replace('__', '_')\<close>: one scan from the left over the occurrences that do not
  overlap; what the scan has written is not read again.
\<close>

fun replace_double_underscore :: "string \<Rightarrow> string" where
  "replace_double_underscore (a # b # cs) =
     (if a = CHR ''_'' \<and> b = CHR ''_''
      then CHR ''_'' # replace_double_underscore cs
      else a # replace_double_underscore (b # cs))"
| "replace_double_underscore cs = cs"

section \<open>Errors\<close>

datatype py_error = ValueError | FileNotFoundError | OSError

section \<open>The tokenizer of shlex\<close>

text \<open>
  \<^verbatim>\<open>shlex.split(s)\<close> runs \<^verbatim>\<open>shlex.read_token\<close> in POSIX mode with
  \<^verbatim>\<open>whitespace_split\<close> set and no comment characters. The states of the tokenizer are
  its own: \<^verbatim>\<open>' '\<close> (between tokens), \<^verbatim>\<open>'a'\<close> (in a word), a quote character (inside
  quotes) and the escape character, which remembers the state to return to.
  The whitespace of shlex is the four characters space, TAB, CR and LF.
\<close>

datatype lex_state = In_space | In_word | In_quote char | In_escape lex_state

definition shlex_whitespace :: "char \<Rightarrow> bool" where
  "shlex_whitespace c = (c \<in> set [CHR '' '', CHR 0x09, CHR 0x0D, CHR 0x0A])"

definition shlex_quote :: "char \<Rightarrow> bool" where
  "shlex_quote c = (c = CHR 0x27 \<or> c = CHR 0x22)"

definition shlex_escape :: "char \<Rightarrow> bool" where
  "shlex_escape c = (c = CHR 0x5C)"

text \<open>
  \<open>read_tokens st quoted tok s\<close> reads the rest \<open>s\<close> of the input in state \<open>st\<close>, with
  \<open>tok\<close> the token read so far and \<open>quoted\<close> the flag of the same name.
  \<open>None\<close> is the \<^verbatim>\<open>ValueError\<close> of an open quotation or of an escape at the end.
\<close>

fun read_tokens :: "lex_state \<Rightarrow> bool \<Rightarrow> string \<Rightarrow> string \<Rightarrow> string list option" where
  "read_tokens In_space quoted tok [] = Some (if tok \<noteq> [] \<or> quoted then [tok] else [])"
| "read_tokens In_word quoted tok [] = Some (if tok \<noteq> [] \<or> quoted then [tok] else [])"
| "read_tokens (In_quote q) quoted tok [] = None"
| "read_tokens (In_escape back_to) quoted tok [] = None"
| "read_tokens In_space quoted tok (c # cs) =
     (if shlex_whitespace c then
        (if tok \<noteq> [] \<or> quoted
         then map_option ((#) tok) (read_tokens In_space False [] cs)
         else read_tokens In_space quoted tok cs)
      else if shlex_escape c then read_tokens (In_escape In_word) quoted tok cs
      else if shlex_quote c then read_tokens (In_quote c) quoted tok cs
      else read_tokens In_word quoted [c] cs)"
| "read_tokens (In_quote q) quoted tok (c # cs) =
     (if c = q then read_tokens In_word True tok cs
      else if shlex_escape c \<and> q = CHR 0x22 then read_tokens (In_escape (In_quote q)) True tok cs
      else read_tokens (In_quote q) True (tok @ [c]) cs)"
| "read_tokens (In_escape back_to) quoted tok (c # cs) =
     (case back_to of
        In_quote q \<Rightarrow>
          read_tokens back_to quoted
            ((if \<not> shlex_escape c \<and> c \<noteq> q then tok @ [CHR 0x5C] else tok) @ [c]) cs
      | _ \<Rightarrow> read_tokens back_to quoted (tok @ [c]) cs)"
| "read_tokens In_word quoted tok (c # cs) =
     (if shlex_whitespace c then
        (if tok \<noteq> [] \<or> quoted
         then map_option ((#) tok) (read_tokens In_space False [] cs)
         else read_tokens In_space quoted tok cs)
      else if shlex_quote c then read_tokens (In_quote c) quoted tok cs
      else if shlex_escape c then read_tokens (In_escape In_word) quoted tok cs
      else read_tokens In_word quoted (tok @ [c]) cs)"

definition shlex_split :: "string \<Rightarrow> string list option" where
  "shlex_split s = read_tokens In_space False [] s"

section \<open>The world outside the program\<close>

text \<open>
  The program reads environment variables, the home directory and the file system,
  runs the external command \<^verbatim>\<open>which\<close> and globs for files. All of it is a value of
  type \<open>world\<close>, which functions that only read take as an argument and functions that
  write return updated.

  A regular file has a text, \<open>None\<close> when its bytes are not valid UTF-8, and permission
  bits. Path strings are the keys as the operating system resolves them. The fields
  \<open>path_str\<close>, \<open>path_parent\<close>, \<open>path_join\<close> and \<open>path_parents\<close> are the functions of
  \<^verbatim>\<open>pathlib\<close>: \<^verbatim>\<open>str(Path(s))\<close>, \<^verbatim>\<open>str(Path(s).parent)\<close>, \<^verbatim>\<open>str(Path(d) / n)\<close> and the
  strings of \<^verbatim>\<open>Path(s).parents\<close>; \<open>set_order\<close> is the order in which a Python \<^verbatim>\<open>set\<close> built
  from a list is iterated. The logging pane and the message boxes of the user interface
  are not part of the model; the answer to the overwrite question is an argument of
  \<open>create_shortcut\<close>.
\<close>

record file_node =
  text_of :: "string option"
  mode :: nat

datatype proc_result = Completed int string string | Raised py_error

record world =
  environ :: "string \<rightharpoonup> string"
  home :: string
  files :: "string \<rightharpoonup> file_node"
  dirs :: "string set"
  access_x :: "string \<Rightarrow> bool"
  read_denied :: "string \<Rightarrow> bool"
  which_cmd :: "string \<Rightarrow> proc_result"
  glob :: "string \<Rightarrow> string list"
  set_order :: "string list \<Rightarrow> string list"
  path_str :: "string \<Rightarrow> string"
  path_parent :: "string \<Rightarrow> string"
  path_join :: "string \<Rightarrow> string \<Rightarrow> string"
  path_parents :: "string \<Rightarrow> string list"
  mkdir_fails :: "string \<Rightarrow> bool"
  open_fails :: "string \<Rightarrow> bool"
  write_fails :: "string \<Rightarrow> bool"
  chmod_fails :: "string \<Rightarrow> bool"
  new_file_mode :: nat

definition environ_get :: "world \<Rightarrow> string \<Rightarrow> string \<Rightarrow> string" where
  "environ_get w k dflt = (case environ w k of Some v \<Rightarrow> v | None \<Rightarrow> dflt)"

definition has_nul :: "string \<Rightarrow> bool" where
  "has_nul p = (CHR 0x00 \<in> set p)"

text \<open>
  \<^verbatim>\<open>os.path.exists\<close> answers False for a path with a NUL character (it catches the
  \<^verbatim>\<open>ValueError\<close> of \<^verbatim>\<open>os.stat\<close>), and so do the queries of \<^verbatim>\<open>pathlib\<close>; \<^verbatim>\<open>os.access\<close>
  and \<^verbatim>\<open>open\<close> raise it.
\<close>

definition os_path_exists :: "world \<Rightarrow> string \<Rightarrow> bool" where
  "os_path_exists w p = (\<not> has_nul p \<and> (p \<in> dom (files w) \<or> p \<in> dirs w))"

definition os_path_isfile :: "world \<Rightarrow> string \<Rightarrow> bool" where
  "os_path_isfile w p = (\<not> has_nul p \<and> p \<in> dom (files w))"

definition os_path_isdir :: "world \<Rightarrow> string \<Rightarrow> bool" where
  "os_path_isdir w p = (\<not> has_nul p \<and> p \<in> dirs w)"

definition os_access_x :: "world \<Rightarrow> string \<Rightarrow> py_error + bool" where
  "os_access_x w p = (if has_nul p then Inl ValueError else Inr (access_x w p))"

definition os_path_isabs :: "string \<Rightarrow> bool" where
  "os_path_isabs p = startswith p ''/''"

definition os_path_join :: "string \<Rightarrow> string \<Rightarrow> string" where
  "os_path_join a b =
     (if startswith b ''/'' then b
      else if a = [] \<or> endswith a ''/'' then a @ b
      else a @ ''/'' @ b)"

text \<open>
  \<^verbatim>\<open>subprocess.run(['which', c], capture_output=True, text=True, check=False)\<close>: a
  completed process with its return code, standard output and standard error, or an
  exception (\<^verbatim>\<open>FileNotFoundError\<close> when there is no \<^verbatim>\<open>which\<close>, \<^verbatim>\<open>ValueError\<close> for an
  argument with a NUL character).
\<close>

definition run_which :: "world \<Rightarrow> string \<Rightarrow> proc_result" where
  "run_which w c = (if has_nul c then Raised ValueError else which_cmd w c)"

text \<open>
  \<^verbatim>\<open>open(p, 'r', encoding='utf-8')\<close> and \<^verbatim>\<open>f.read()\<close>.
\<close>

definition read_text_file :: "world \<Rightarrow> string \<Rightarrow> py_error + string" where
  "read_text_file w p =
     (if has_nul p then Inl ValueError
      else (case files w p of
              None \<Rightarrow> Inl OSError
            | Some f \<Rightarrow>
                if read_denied w p then Inl OSError
                else (case text_of f of None \<Rightarrow> Inl ValueError | Some t \<Rightarrow> Inr t)))"

section \<open>find_executable_path\<close>

text \<open>
  The fallback tokenization after a \<^verbatim>\<open>ValueError\<close> of \<^verbatim>\<open>shlex.split\<close>:
  \<^verbatim>\<open>[part.strip('"\'') for part in exec_string.split() if part.strip()]\<close>.
\<close>

definition fallback_split :: "string \<Rightarrow> string list" where
  "fallback_split s =
     map (strip_chars [CHR 0x22, CHR 0x27]) (filter (\<lambda>part. strip part \<noteq> []) (split_ws s))"

definition exec_parts_of :: "string \<Rightarrow> string list" where
  "exec_parts_of exec_string =
     (case shlex_split exec_string of
        Some parts \<Rightarrow> parts
      | None \<Rightarrow> fallback_split exec_string)"

text \<open>\<^verbatim>\<open>exec_candidate.split('%')[0].strip()\<close>.\<close>

definition remove_placeholders :: "string \<Rightarrow> string" where
  "remove_placeholders t = strip (case split_on CHR ''%'' t of [] \<Rightarrow> [] | h # _ \<Rightarrow> h)"

text \<open>
  The candidate the function looks up: \<open>None\<close> where the function returns its argument
  before any lookup.
\<close>

definition exec_candidate_of :: "string \<Rightarrow> string option" where
  "exec_candidate_of exec_string =
     (case exec_parts_of exec_string of
        [] \<Rightarrow> None
      | first # _ \<Rightarrow>
          (let c = remove_placeholders first in if c = [] then None else Some c))"

text \<open>
  Case 2 of the function, the lookup with \<^verbatim>\<open>which\<close>; every exception in it is
  caught there.
\<close>

definition lookup_in_path :: "world \<Rightarrow> string \<Rightarrow> string \<Rightarrow> string" where
  "lookup_in_path w exec_string c =
     (case run_which w c of
        Raised e \<Rightarrow> exec_string
      | Completed returncode out err \<Rightarrow>
          if returncode = 0 then
            (let resolved_path = strip out
             in case os_access_x w resolved_path of
                  Inl e \<Rightarrow> exec_string
                | Inr ok \<Rightarrow> if ok then resolved_path else exec_string)
          else exec_string)"

text \<open>
  Case 1 stands outside every \<^verbatim>\<open>try\<close>: an exception of \<^verbatim>\<open>os.access\<close> there would
  leave the function.
\<close>

definition find_executable_path :: "world \<Rightarrow> string \<Rightarrow> py_error + string" where
  "find_executable_path w exec_string =
     (case exec_candidate_of exec_string of
        None \<Rightarrow> Inr exec_string
      | Some c \<Rightarrow>
          if os_path_isabs c then
            (if os_path_exists w c then
               (case os_access_x w c of
                  Inl e \<Rightarrow> Inl e
                | Inr ok \<Rightarrow> if ok then Inr c else Inr (lookup_in_path w exec_string c))
             else Inr (lookup_in_path w exec_string c))
          else Inr (lookup_in_path w exec_string c))"

section \<open>Regular expressions\<close>

text \<open>
  The part of Python's \<^verbatim>\<open>re\<close> that the Flatpak pattern uses, with the semantics of a
  backtracking matcher: \<open>run r st\<close> lists, in the order in which the matcher tries them,
  the states in which \<open>r\<close> can end when started in \<open>st\<close>. A state is the rest of the
  subject and the groups captured so far, the latest first. A lazy repetition tries to
  stop before it tries its body once more; a greedy one the other way round. The
  repetitions get as fuel the length of the rest, which an iteration that consumes a
  character cannot use up; an iteration that consumes nothing is not repeated.
\<close>

datatype regex =
    Lit string
  | Char_class "char \<Rightarrow> bool"
  | Cat regex regex
  | Alt regex regex
  | Star_lazy regex
  | Star_greedy regex
  | Group nat regex
  | Lookahead regex
  | End_of_string

type_synonym match_state = "string \<times> (nat \<times> string) list"

fun iter_lazy :: "(match_state \<Rightarrow> match_state list) \<Rightarrow> nat \<Rightarrow> match_state \<Rightarrow> match_state list" where
  "iter_lazy body 0 st = [st]"
| "iter_lazy body (Suc n) st =
     st # concat (map (iter_lazy body n)
                    (filter (\<lambda>st'. length (fst st') < length (fst st)) (body st)))"

fun iter_greedy :: "(match_state \<Rightarrow> match_state list) \<Rightarrow> nat \<Rightarrow> match_state \<Rightarrow> match_state list" where
  "iter_greedy body 0 st = [st]"
| "iter_greedy body (Suc n) st =
     concat (map (iter_greedy body n)
               (filter (\<lambda>st'. length (fst st') < length (fst st)) (body st))) @ [st]"

primrec run :: "regex \<Rightarrow> match_state \<Rightarrow> match_state list" where
  "run (Lit lit) = (\<lambda>st. if startswith (fst st) lit then [(drop (length lit) (fst st), snd st)] else [])"
| "run (Char_class cls) =
     (\<lambda>st. case fst st of [] \<Rightarrow> [] | c # cs \<Rightarrow> if cls c then [(cs, snd st)] else [])"
| "run (Cat r1 r2) = (\<lambda>st. concat (map (run r2) (run r1 st)))"
| "run (Alt r1 r2) = (\<lambda>st. run r1 st @ run r2 st)"
| "run (Star_lazy r) = (\<lambda>st. iter_lazy (run r) (length (fst st)) st)"
| "run (Star_greedy r) = (\<lambda>st. iter_greedy (run r) (length (fst st)) st)"
| "run (Group i r) =
     (\<lambda>st. map (\<lambda>st'. (fst st', (i, take (length (fst st) - length (fst st')) (fst st)) # snd st'))
              (run r st))"
| "run (Lookahead r) = (\<lambda>st. if run r st = [] then [] else [st])"
| "run End_of_string = (\<lambda>st. if fst st = [] then [st] else [])"

definition Plus_greedy :: "regex \<Rightarrow> regex" where
  "Plus_greedy r = Cat r (Star_greedy r)"

definition Plus_lazy :: "regex \<Rightarrow> regex" where
  "Plus_lazy r = Cat r (Star_lazy r)"

text \<open>
  \<^verbatim>\<open>re.search\<close>: the first way to match at the leftmost position that has one; the
  position after the last character is tried too.
\<close>

fun re_search :: "regex \<Rightarrow> string \<Rightarrow> match_state option" where
  "re_search r [] = (case run r ([], []) of [] \<Rightarrow> None | m # _ \<Rightarrow> Some m)"
| "re_search r (c # cs) =
     (case run r (c # cs, []) of [] \<Rightarrow> re_search r cs | m # _ \<Rightarrow> Some m)"

definition match_group :: "match_state \<Rightarrow> nat \<Rightarrow> string option" where
  "match_group m i = map_of (snd m) i"

text \<open>
  The character classes of the pattern: \<^verbatim>\<open>[a-zA-Z0-9=\-\.]\<close> in a flag and
  \<^verbatim>\<open>[a-zA-Z0-9\.\-_]\<close> in the application ID; \<^verbatim>\<open>\s\<close> is \<open>isspace\<close>.
\<close>

definition ascii_alnum :: "char \<Rightarrow> bool" where
  "ascii_alnum c =
     (let n = code_point c
      in (97 \<le> n \<and> n \<le> 122) \<or> (65 \<le> n \<and> n \<le> 90) \<or> (48 \<le> n \<and> n \<le> 57))"

definition flag_char :: "char \<Rightarrow> bool" where
  "flag_char c = (ascii_alnum c \<or> c = CHR ''='' \<or> c = CHR ''-'' \<or> c = CHR ''.'')"

definition id_char :: "char \<Rightarrow> bool" where
  "id_char c = (ascii_alnum c \<or> c = CHR ''.'' \<or> c = CHR ''-'' \<or> c = CHR ''_'')"

text \<open>
  \<^verbatim>\<open>r"flatpak run\s+(--[a-zA-Z0-9=\-\.]+?\s+)*?([a-zA-Z0-9\.\-_]+)(?=\s|\Z)"\<close>
\<close>

definition flatpak_pattern :: regex where
  "flatpak_pattern =
     Cat (Lit ''flatpak run'')
    (Cat (Plus_greedy (Char_class isspace))
    (Cat (Star_lazy (Group 1
            (Cat (Lit ''--'')
            (Cat (Plus_lazy (Char_class flag_char))
                 (Plus_greedy (Char_class isspace))))))
    (Cat (Group 2 (Plus_greedy (Char_class id_char)))
         (Lookahead (Alt (Char_class isspace) End_of_string)))))"

section \<open>parse_desktop_file\<close>

record app_info =
  name :: string
  exec :: string
  resolved_path :: string
  icon :: string
  comment :: string
  categories :: string
  terminal :: bool
  desktop_file :: string

definition dict_get :: "(string \<rightharpoonup> string) \<Rightarrow> string \<Rightarrow> string \<Rightarrow> string" where
  "dict_get d k dflt = (case d k of Some v \<Rightarrow> v | None \<Rightarrow> dflt)"

text \<open>
  The loop over the lines of the file: \<open>current_section\<close> is \<open>None\<close> before the first
  section header; \<^verbatim>\<open>line[1:-1]\<close> drops the first and the last character.
\<close>

fun parse_lines ::
  "string option \<Rightarrow> (string \<rightharpoonup> string) \<Rightarrow> string list \<Rightarrow> (string \<rightharpoonup> string)" where
  "parse_lines current_section desktop_dict [] = desktop_dict"
| "parse_lines current_section desktop_dict (l # ls) =
     (let line = strip l
      in if startswith line ''['' \<and> endswith line '']''
         then parse_lines (Some (butlast (tl line))) desktop_dict ls
         else if current_section = Some ''Desktop Entry'' \<and> CHR ''='' \<in> set line
         then parse_lines current_section
                (desktop_dict (fst (split_once CHR ''='' line) \<mapsto> snd (split_once CHR ''='' line))) ls
         else parse_lines current_section desktop_dict ls)"

definition desktop_dict_of :: "string \<Rightarrow> (string \<rightharpoonup> string)" where
  "desktop_dict_of content = parse_lines None Map.empty (split_on CHR 0x0A content)"

text \<open>\<^verbatim>\<open>os.environ.get('LANG', 'en_US.UTF-8').split('.')[0]\<close>\<close>

definition lang_code :: "world \<Rightarrow> string" where
  "lang_code w =
     (case split_on CHR ''.'' (environ_get w ''LANG'' ''en_US.UTF-8'') of
        [] \<Rightarrow> []
      | h # _ \<Rightarrow> h)"

text \<open>\<^verbatim>\<open>desktop_dict.get(f'Key[{lang_code}]', desktop_dict.get('Key', ''))\<close>\<close>

definition localized :: "world \<Rightarrow> (string \<rightharpoonup> string) \<Rightarrow> string \<Rightarrow> string" where
  "localized w d k = dict_get d (k @ ''['' @ lang_code w @ '']'') (dict_get d k [])"

definition entry_name :: "world \<Rightarrow> (string \<rightharpoonup> string) \<Rightarrow> string" where
  "entry_name w d =
     (let n = localized w d ''Name''
      in if n = [] then dict_get d ''GenericName'' [] else n)"

definition is_flatpak :: "world \<Rightarrow> (string \<rightharpoonup> string) \<Rightarrow> string \<Rightarrow> bool" where
  "is_flatpak w d file_path =
     (lower (dict_get d ''X-Flatpak'' []) = ''true''
      \<or> startswith file_path ''/var/lib/flatpak/exports/share/applications/''
      \<or> startswith file_path (home w @ ''/.local/share/flatpak/exports/share/applications/''))"

definition is_snap :: "world \<Rightarrow> (string \<rightharpoonup> string) \<Rightarrow> string \<Rightarrow> bool" where
  "is_snap w d file_path =
     (contains (dict_get d ''Exec'' []) ''snap/gui'' \<and> \<not> is_flatpak w d file_path)"

text \<open>\<^verbatim>\<open>exec_string_original.split('/')[-1].split(' ')[0]\<close>\<close>

definition exec_basename :: "string \<Rightarrow> string" where
  "exec_basename e =
     (case split_on CHR '' '' (last (split_on CHR ''/'' e)) of
        [] \<Rightarrow> []
      | h # _ \<Rightarrow> h)"

text \<open>
  The body of the \<^verbatim>\<open>try\<close> block after the file is read. An exception of
  \<open>find_executable_path\<close> is one of the block.
\<close>

definition parse_content :: "world \<Rightarrow> string \<Rightarrow> string \<Rightarrow> py_error + app_info" where
  "parse_content w file_path content =
     (let d = desktop_dict_of content;
          nm = entry_name w d;
          exec_string_original = dict_get d ''Exec'' [];
          icon0 = localized w d ''Icon'';
          cmt = localized w d ''Comment'';
          cats = dict_get d ''Categories'' [];
          term = (lower (dict_get d ''Terminal'' []) = ''true'');
          made = (\<lambda>resolved ic.
                    \<lparr>name = nm, exec = exec_string_original, resolved_path = resolved,
                     icon = ic, comment = cmt, categories = cats, terminal = term,
                     desktop_file = file_path\<rparr>)
      in if is_flatpak w d file_path then
           (case re_search flatpak_pattern exec_string_original of
              Some m \<Rightarrow>
                (let flatpak_id = (case match_group m 2 of Some g \<Rightarrow> g | None \<Rightarrow> [])
                 in Inr (made (''flatpak run '' @ flatpak_id)
                           (if icon0 = [] \<or> icon0 = exec_basename exec_string_original
                            then flatpak_id else icon0)))
            | None \<Rightarrow> Inr (made exec_string_original icon0))
         else if is_snap w d file_path then Inr (made exec_string_original icon0)
         else (case find_executable_path w exec_string_original of
                 Inl e \<Rightarrow> Inl e
               | Inr resolved \<Rightarrow> Inr (made resolved icon0)))"

definition parse_desktop_file :: "world \<Rightarrow> string \<Rightarrow> app_info option" where
  "parse_desktop_file w file_path =
     (case read_text_file w file_path of
        Inl e \<Rightarrow> None
      | Inr content \<Rightarrow>
          (case parse_content w file_path content of
             Inl e \<Rightarrow> None
           | Inr info \<Rightarrow> Some info))"

section \<open>load_applications\<close>

text \<open>
  The state of a \<^verbatim>\<open>ShortcutCreator\<close>: the catalog and the variables behind the entry
  fields of the window.
\<close>

record app_state =
  applications :: "app_info list"
  name_var :: string
  path_var :: string
  icon_var :: string
  desc_var :: string
  categories_var :: string
  terminal_var :: bool
  dest_var :: string

definition builtin_dirs :: "world \<Rightarrow> string list" where
  "builtin_dirs w =
     [''/usr/share/applications/'',
      ''/usr/local/share/applications/'',
      home w @ ''/.local/share/applications/'',
      ''/var/lib/snapd/desktop/applications/'',
      ''/var/lib/flatpak/exports/share/applications/'',
      home w @ ''/.local/share/flatpak/exports/share/applications/'']"

definition xdg_data_dirs :: "world \<Rightarrow> string list" where
  "xdg_data_dirs w = split_on CHR '':'' (environ_get w ''XDG_DATA_DIRS'' [])"

text \<open>The loop over \<^verbatim>\<open>xdg_data_dirs\<close>, which tests \<open>d\<close> and appends the joined path.\<close>

fun add_xdg_data_dirs :: "string list \<Rightarrow> string list \<Rightarrow> string list" where
  "add_xdg_data_dirs desktop_dirs [] = desktop_dirs"
| "add_xdg_data_dirs desktop_dirs (d # ds) =
     add_xdg_data_dirs
       (if d \<noteq> [] \<and> d \<notin> set desktop_dirs
        then desktop_dirs @ [os_path_join d ''applications'']
        else desktop_dirs) ds"

definition add_xdg_data_home :: "world \<Rightarrow> string list \<Rightarrow> string list" where
  "add_xdg_data_home w desktop_dirs =
     (let xdg_data_home = environ_get w ''XDG_DATA_HOME'' (home w @ ''/.local/share'')
      in if xdg_data_home \<noteq> [] \<and> (home w @ ''/.local/share/applications/'') \<notin> set desktop_dirs
         then desktop_dirs @ [os_path_join xdg_data_home ''applications'']
         else desktop_dirs)"

definition candidate_dirs :: "world \<Rightarrow> string list" where
  "candidate_dirs w = add_xdg_data_home w (add_xdg_data_dirs (builtin_dirs w) (xdg_data_dirs w))"

text \<open>\<^verbatim>\<open>[d for d in list(set(desktop_dirs)) if os.path.exists(d)]\<close>\<close>

definition scan_dirs :: "world \<Rightarrow> string list" where
  "scan_dirs w = filter (os_path_exists w) (set_order w (candidate_dirs w))"

text \<open>The patterns handed to \<^verbatim>\<open>glob.glob\<close>, one for each turn of the outer loop.\<close>

definition glob_patterns :: "world \<Rightarrow> string list" where
  "glob_patterns w = map (\<lambda>directory. directory @ ''*.desktop'') (scan_dirs w)"

fun scan_files :: "world \<Rightarrow> app_info list \<Rightarrow> string list \<Rightarrow> app_info list" where
  "scan_files w apps [] = apps"
| "scan_files w apps (file_path # rest) =
     (case parse_desktop_file w file_path of
        None \<Rightarrow> scan_files w apps rest
      | Some info \<Rightarrow>
          if name info \<noteq> [] \<and> exec info \<noteq> []
          then scan_files w (apps @ [info]) rest
          else scan_files w apps rest)"

fun scan_patterns :: "world \<Rightarrow> app_info list \<Rightarrow> string list \<Rightarrow> app_info list" where
  "scan_patterns w apps [] = apps"
| "scan_patterns w apps (pat # rest) = scan_patterns w (scan_files w apps (glob w pat)) rest"

definition load_applications :: "world \<Rightarrow> app_state \<Rightarrow> app_state" where
  "load_applications w st =
     st\<lparr>applications :=
          sort_key (\<lambda>x. lower (name x)) (scan_patterns w [] (glob_patterns w))\<rparr>"

definition refresh_applications :: "world \<Rightarrow> app_state \<Rightarrow> app_state" where
  "refresh_applications w st = load_applications w st"

section \<open>create_shortcut\<close>

datatype outcome =
    Name_missing
  | Command_missing
  | Cancelled
  | Created string
  | Failed py_error
  | Uncaught py_error

definition newline :: string where
  "newline = [CHR 0x0A]"

text \<open>Queries through a \<^verbatim>\<open>Path\<close> object go to the string of the path.\<close>

definition Path_exists :: "world \<Rightarrow> string \<Rightarrow> bool" where
  "Path_exists w s = os_path_exists w (path_str w s)"

definition Path_is_dir :: "world \<Rightarrow> string \<Rightarrow> bool" where
  "Path_is_dir w s = os_path_isdir w (path_str w s)"

definition Path_is_file :: "world \<Rightarrow> string \<Rightarrow> bool" where
  "Path_is_file w s = os_path_isfile w (path_str w s)"

definition working_dir_of :: "world \<Rightarrow> string \<Rightarrow> py_error + string" where
  "working_dir_of w exec_command =
     (if startswith exec_command ''flatpak run'' \<or> startswith exec_command ''snap run''
      then Inr []
      else if os_path_isabs exec_command \<and> Path_exists w exec_command then
        (if Path_is_dir w exec_command then Inr (path_str w exec_command)
         else if Path_is_file w exec_command then Inr (path_parent w exec_command)
         else Inr [])
      else (case find_executable_path w exec_command of
              Inl e \<Rightarrow> Inl e
            | Inr resolved_bin_path \<Rightarrow>
                if os_path_isabs resolved_bin_path \<and> Path_is_file w resolved_bin_path
                then Inr (path_parent w resolved_bin_path)
                else Inr []))"

text \<open>\<^verbatim>\<open>str(b)\<close> of a Boolean.\<close>

definition str_of_bool :: "bool \<Rightarrow> string" where
  "str_of_bool b = (if b then ''True'' else ''False'')"

text \<open>The text of the file, built by the appends of the source in their order.\<close>

definition desktop_content :: "app_state \<Rightarrow> string \<Rightarrow> string \<Rightarrow> string \<Rightarrow> string" where
  "desktop_content st nm exec_command working_dir =
     (let c0 = ''[Desktop Entry]'' @ newline;
          c1 = c0 @ ''Version=1.0'' @ newline;
          c2 = c1 @ ''Type=Application'' @ newline;
          c3 = c2 @ ''Name='' @ nm @ newline;
          c4 = c3 @ ''Exec='' @ exec_command @ newline;
          c5 = (if working_dir \<noteq> [] then c4 @ ''Path='' @ working_dir @ newline else c4);
          c6 = (if strip (desc_var st) \<noteq> []
                then c5 @ ''Comment='' @ strip (desc_var st) @ newline else c5);
          c7 = (if strip (icon_var st) \<noteq> []
                then c6 @ ''Icon='' @ strip (icon_var st) @ newline else c6);
          c8 = (if strip (categories_var st) \<noteq> []
                then c7 @ ''Categories='' @ strip (categories_var st) @ '';'' @ newline else c7);
          c9 = c8 @ ''Terminal='' @ lower (str_of_bool (terminal_var st)) @ newline
      in c9 @ ''StartupNotify=true'' @ newline)"

text \<open>
  \<^verbatim>\<open>"".join(c if c.isalnum() or c in (' ', '-', '_', '.') else '_' for c in name)
  .strip().replace('__', '_')\<close>, and the fallback for an empty result.
\<close>

definition keep_or_underscore :: "char \<Rightarrow> char" where
  "keep_or_underscore c =
     (if isalnum c \<or> c \<in> set [CHR '' '', CHR ''-'', CHR ''_'', CHR ''.''] then c else CHR ''_'')"

definition safe_name_of :: "string \<Rightarrow> string" where
  "safe_name_of nm =
     (let safe_name = replace_double_underscore (strip (map keep_or_underscore nm))
      in if safe_name = [] then ''untitled_shortcut'' else safe_name)"

text \<open>
  The writes. Each returns the world it leaves and the exception it raised, if any.
  \<^verbatim>\<open>dest_dir.mkdir(parents=True, exist_ok=True)\<close> makes the directory and its missing
  ancestors. \<^verbatim>\<open>open(p, 'w')\<close> truncates a file that exists, keeping its permission
  bits, or creates one; a write that fails leaves the file truncated.
\<close>

definition mkdir_parents :: "world \<Rightarrow> string \<Rightarrow> world \<times> py_error option" where
  "mkdir_parents w d =
     (if has_nul d then (w, Some ValueError)
      else if mkdir_fails w d then (w, Some OSError)
      else (w\<lparr>dirs := dirs w \<union> {d} \<union> set (path_parents w d)\<rparr>, None))"

definition write_text :: "world \<Rightarrow> string \<Rightarrow> string \<Rightarrow> world \<times> py_error option" where
  "write_text w p txt =
     (if has_nul p then (w, Some ValueError)
      else if p \<in> dirs w \<or> open_fails w p then (w, Some OSError)
      else (let m = (case files w p of Some f \<Rightarrow> mode f | None \<Rightarrow> new_file_mode w)
            in if write_fails w p
               then (w\<lparr>files := (files w)(p \<mapsto> \<lparr>text_of = Some [], mode = m\<rparr>)\<rparr>, Some OSError)
               else (w\<lparr>files := (files w)(p \<mapsto> \<lparr>text_of = Some txt, mode = m\<rparr>)\<rparr>, None)))"

definition os_chmod :: "world \<Rightarrow> string \<Rightarrow> nat \<Rightarrow> world \<times> py_error option" where
  "os_chmod w p m =
     (if has_nul p then (w, Some ValueError)
      else (case files w p of
              None \<Rightarrow> (w, Some OSError)
            | Some f \<Rightarrow>
                if chmod_fails w p then (w, Some OSError)
                else (w\<lparr>files := (files w)(p \<mapsto> f\<lparr>mode := m\<rparr>)\<rparr>, None)))"

text \<open>The octal literal \<^verbatim>\<open>0o755\<close>.\<close>

definition mode_0o755 :: nat where
  "mode_0o755 = 7 * 8 ^ 2 + 5 * 8 + 5"

definition target_path :: "world \<Rightarrow> app_state \<Rightarrow> string" where
  "target_path w st =
     path_join w (path_str w (dest_var st)) (safe_name_of (strip (name_var st)) @ ''.desktop'')"

text \<open>
  \<open>create_shortcut w st answer\<close>: \<open>answer\<close> is what the user answers when asked whether
  to overwrite; the question is asked only when the target exists.
\<close>

definition create_shortcut :: "world \<Rightarrow> app_state \<Rightarrow> bool \<Rightarrow> world \<times> outcome" where
  "create_shortcut w st answer =
     (let nm = strip (name_var st);
          exec_command = strip (path_var st)
      in if nm = [] then (w, Name_missing)
         else if exec_command = [] then (w, Command_missing)
         else (case working_dir_of w exec_command of
                 Inl e \<Rightarrow> (w, Uncaught e)
               | Inr working_dir \<Rightarrow>
                  (let txt = desktop_content st nm exec_command working_dir;
                       dest_dir = path_str w (dest_var st);
                       made = (if \<not> os_path_exists w dest_dir
                               then mkdir_parents w dest_dir else (w, None))
                   in case snd made of
                        Some e \<Rightarrow> (fst made, Failed e)
                      | None \<Rightarrow>
                         (let w1 = fst made;
                              desktop_file_path = path_join w dest_dir (safe_name_of nm @ ''.desktop'')
                          in if os_path_exists w1 desktop_file_path \<and> \<not> answer
                             then (w1, Cancelled)
                             else (let written = write_text w1 desktop_file_path txt
                                   in case snd written of
                                        Some e \<Rightarrow> (fst written, Failed e)
                                      | None \<Rightarrow>
                                         (let changed = os_chmod (fst written) desktop_file_path mode_0o755
                                          in case snd changed of
                                               Some e \<Rightarrow> (fst changed, Failed e)
                                             | None \<Rightarrow> (fst changed, Created desktop_file_path)))))))"

text \<open>
  Permission bits: the octal digit of the owner (\<open>k = 2\<close>), the group (\<open>k = 1\<close>) and the
  others (\<open>k = 0\<close>), and the three permissions in a digit.
\<close>

definition perm_digit :: "nat \<Rightarrow> nat \<Rightarrow> nat" where
  "perm_digit m k = (m div 8 ^ k) mod 8"

definition may_read :: "nat \<Rightarrow> bool" where
  "may_read d = (d div 4 mod 2 = 1)"

definition may_write :: "nat \<Rightarrow> bool" where
  "may_write d = (d div 2 mod 2 = 1)"

definition may_execute :: "nat \<Rightarrow> bool" where
  "may_execute d = (d mod 2 = 1)"

section \<open>Notions of the specification\<close>

text \<open>
  The sanitization of the file name as the specification words it: keep the
  alphanumeric characters, spaces, hyphens, underscores and dots, replace every other
  character by an underscore, collapse \<^verbatim>\<open>__\<close> in one pass, and then trim.
\<close>

definition spec_allowed :: "char \<Rightarrow> bool" where
  "spec_allowed c =
     (isalnum c \<or> c = CHR '' '' \<or> c = CHR ''-'' \<or> c = CHR ''_'' \<or> c = CHR ''.'')"

definition spec_safe_name :: "string \<Rightarrow> string" where
  "spec_safe_name nm =
     (let replaced = map (\<lambda>c. if spec_allowed c then c else CHR ''_'') nm;
          collapsed = replace_double_underscore replaced;
          trimmed = strip collapsed
      in if trimmed = [] then ''untitled_shortcut'' else trimmed)"

text \<open>
  The outcomes of \<open>find_executable_path\<close>: the candidate is an absolute path that exists
  and that the process may execute; the lookup with \<^verbatim>\<open>which\<close> succeeds with a path that
  the process may execute; or the lookup fails (the command is missing or raises, returns
  a code other than 0, or prints a path that the process may not execute).
\<close>

definition absolute_hit :: "world \<Rightarrow> string \<Rightarrow> bool" where
  "absolute_hit w c = (os_path_isabs c \<and> os_path_exists w c \<and> os_access_x w c = Inr True)"

definition lookup_hit :: "world \<Rightarrow> string \<Rightarrow> string \<Rightarrow> bool" where
  "lookup_hit w c r =
     (case run_which w c of
        Raised e \<Rightarrow> False
      | Completed returncode out err \<Rightarrow>
          returncode = 0 \<and> r = strip out \<and> os_access_x w r = Inr True)"

definition lookup_failed :: "world \<Rightarrow> string \<Rightarrow> bool" where
  "lookup_failed w c =
     (case run_which w c of
        Raised e \<Rightarrow> True
      | Completed returncode out err \<Rightarrow>
          returncode \<noteq> 0 \<or> os_access_x w (strip out) \<noteq> Inr True)"

text \<open>The part of a token before its first percent sign.\<close>

definition before_percent :: "string \<Rightarrow> string" where
  "before_percent t = takeWhile (\<lambda>c. c \<noteq> CHR ''%'') t"

text \<open>
  The preference among the keys of a localized entry: the key with the language suffix
  if the file has it, else the key without suffix, else the empty string.
\<close>

definition preferred :: "(string \<rightharpoonup> string) \<Rightarrow> string \<Rightarrow> string \<Rightarrow> string" where
  "preferred d lc k =
     (case d (k @ ''['' @ lc @ '']'') of
        Some v \<Rightarrow> v
      | None \<Rightarrow> (case d k of Some v \<Rightarrow> v | None \<Rightarrow> []))"

text \<open>The value of \<^verbatim>\<open>LANG\<close> up to its first dot.\<close>

definition lang_without_encoding :: "world \<Rightarrow> string" where
  "lang_without_encoding w =
     takeWhile (\<lambda>c. c \<noteq> CHR ''.'') (case environ w ''LANG'' of Some v \<Rightarrow> v | None \<Rightarrow> ''en_US.UTF-8'')"

text \<open>The application ID that the Flatpak pattern finds in an Exec string, if any.\<close>

definition flatpak_id_of :: "string \<Rightarrow> string option" where
  "flatpak_id_of e =
     (case re_search flatpak_pattern e of
        None \<Rightarrow> None
      | Some m \<Rightarrow> Some (case match_group m 2 of Some g \<Rightarrow> g | None \<Rightarrow> []))"

text \<open>
  A file without a name: it has neither the key \<^verbatim>\<open>Name\<close> with the language suffix, nor
  \<^verbatim>\<open>Name\<close>, nor \<^verbatim>\<open>GenericName\<close>.
\<close>

definition lacks_name :: "world \<Rightarrow> (string \<rightharpoonup> string) \<Rightarrow> bool" where
  "lacks_name w d =
     (d (''Name['' @ lang_without_encoding w @ '']'') = None
      \<and> d ''Name'' = None \<and> d ''GenericName'' = None)"

text \<open>
  The serialization as the specification words it: the keys in their fixed order, each
  optional key present only if its value is not empty, and the text one
  \<^verbatim>\<open>key=value\<close> line for each after the header.
\<close>

definition key_order :: "string list" where
  "key_order =
     [''Version'', ''Type'', ''Name'', ''Exec'', ''Path'', ''Comment'', ''Icon'', ''Categories'',
      ''Terminal'', ''StartupNotify'']"

definition spec_entries ::
  "string \<Rightarrow> string \<Rightarrow> string \<Rightarrow> string \<Rightarrow> string \<Rightarrow> string \<Rightarrow> bool \<Rightarrow> (string \<times> string) list" where
  "spec_entries nm ex wd dsc ic cats term =
     [(''Version'', ''1.0''), (''Type'', ''Application''), (''Name'', nm), (''Exec'', ex)]
     @ (if wd \<noteq> [] then [(''Path'', wd)] else [])
     @ (if dsc \<noteq> [] then [(''Comment'', dsc)] else [])
     @ (if ic \<noteq> [] then [(''Icon'', ic)] else [])
     @ (if cats \<noteq> [] then [(''Categories'', cats @ '';'')] else [])
     @ [(''Terminal'', if term then ''true'' else ''false''), (''StartupNotify'', ''true'')]"

definition render_line :: "string \<times> string \<Rightarrow> string" where
  "render_line kv = fst kv @ ''='' @ snd kv @ newline"

definition render_entries :: "(string \<times> string) list \<Rightarrow> string" where
  "render_entries es = ''[Desktop Entry]'' @ newline @ concat (map render_line es)"

section \<open>Worlds for the examples\<close>

text \<open>
  A world with an empty environment, no files, no \<^verbatim>\<open>which\<close> command and the simplest
  path functions; the examples change the fields they need.
\<close>

definition bare_world :: world where
  "bare_world =
     \<lparr>environ = Map.empty,
      home = ''/home/u'',
      files = Map.empty,
      dirs = {},
      access_x = (\<lambda>p. False),
      read_denied = (\<lambda>p. False),
      which_cmd = (\<lambda>c. Raised FileNotFoundError),
      glob = (\<lambda>pat. []),
      set_order = remdups,
      path_str = (\<lambda>s. s),
      path_parent = (\<lambda>s. rev (drop 1 (dropWhile (\<lambda>c. c \<noteq> CHR ''/'') (rev s)))),
      path_join = (\<lambda>d n. d @ ''/'' @ n),
      path_parents = (\<lambda>s. []),
      mkdir_fails = (\<lambda>p. False),
      open_fails = (\<lambda>p. False),
      write_fails = (\<lambda>p. False),
      chmod_fails = (\<lambda>p. False),
      new_file_mode = 6 * 8 ^ 2 + 4 * 8 + 4\<rparr>"

text \<open>
  A world whose current directory holds the executable \<^verbatim>\<open>run.sh\<close>. A command with a
  slash is not searched for: \<^verbatim>\<open>which ./run.sh\<close> tests the file and prints the command
  as it is.
\<close>

definition cwd_world :: world where
  "cwd_world =
     bare_world
       \<lparr>files := [''./run.sh'' \<mapsto> \<lparr>text_of = Some ''#!/bin/sh'', mode = 7 * 8 ^ 2 + 5 * 8 + 5\<rparr>],
        access_x := (\<lambda>p. p = ''./run.sh''),
        which_cmd := (\<lambda>c. if c = ''./run.sh'' then Completed 0 (''./run.sh'' @ [CHR 0x0A]) []
                            else Completed 1 [] [])\<rparr>"

text \<open>A world with the executable \<^verbatim>\<open>/usr/bin/vim\<close>.\<close>

definition vim_world :: world where
  "vim_world =
     bare_world
       \<lparr>files := [''/usr/bin/vim'' \<mapsto> \<lparr>text_of = None, mode = 7 * 8 ^ 2 + 5 * 8 + 5\<rparr>],
        dirs := {''/usr'', ''/usr/bin''},
        access_x := (\<lambda>p. p \<in> {''/usr'', ''/usr/bin'', ''/usr/bin/vim''}),
        which_cmd := (\<lambda>c. if c = ''vim'' then Completed 0 (''/usr/bin/vim'' @ [CHR 0x0A]) []
                            else Completed 1 [] [])\<rparr>"

text \<open>The Exec string that consists of the quoted token \<^verbatim>\<open>"a %f"\<close>.\<close>

definition quoted_exec :: string where
  "quoted_exec = [CHR 0x22] @ ''a %f'' @ [CHR 0x22]"

text \<open>
  A world with \<^verbatim>\<open>LANG=fr_FR.UTF-8\<close> and two desktop files: one names the application
  in French under the key \<^verbatim>\<open>Name[fr]\<close>, the other under \<^verbatim>\<open>Name[fr_FR]\<close>.
\<close>

definition name_fr_text :: string where
  "name_fr_text =
     ''[Desktop Entry]'' @ newline @ ''Name=Foo'' @ newline @ ''Name[fr]=Fou'' @ newline
     @ ''Exec=foo'' @ newline"

definition name_fr_FR_text :: string where
  "name_fr_FR_text =
     ''[Desktop Entry]'' @ newline @ ''Name=Foo'' @ newline @ ''Name[fr_FR]=Fou'' @ newline
     @ ''Exec=foo'' @ newline"

definition french_world :: world where
  "french_world =
     bare_world
       \<lparr>environ := [''LANG'' \<mapsto> ''fr_FR.UTF-8''],
        files := [''/usr/share/applications/fr.desktop'' \<mapsto>
                    \<lparr>text_of = Some name_fr_text, mode = 6 * 8 ^ 2 + 4 * 8 + 4\<rparr>,
                  ''/usr/share/applications/fr_FR.desktop'' \<mapsto>
                    \<lparr>text_of = Some name_fr_FR_text, mode = 6 * 8 ^ 2 + 4 * 8 + 4\<rparr>]\<rparr>"

text \<open>
  The Exec line that the comment in \<open>parse_desktop_file\<close> gives as its example, the same
  line without its \<^verbatim>\<open>--arch=x86_64\<close>, and a world with a desktop file for each in the
  export directory of Flatpak.
\<close>

definition zen_exec :: string where
  "zen_exec =
     ''/usr/bin/flatpak run --branch=stable --arch=x86_64 --command=zen-browser ''
     @ ''app.zen_browser.zen @@u %U @@''"

definition zen_exec_no_arch :: string where
  "zen_exec_no_arch =
     ''/usr/bin/flatpak run --branch=stable --command=zen-browser ''
     @ ''app.zen_browser.zen @@u %U @@''"

definition zen_file :: string where
  "zen_file = ''/var/lib/flatpak/exports/share/applications/app.zen_browser.zen.desktop''"

definition zen_file_no_arch :: string where
  "zen_file_no_arch = ''/var/lib/flatpak/exports/share/applications/no_arch.desktop''"

definition zen_text :: "string \<Rightarrow> string" where
  "zen_text e =
     ''[Desktop Entry]'' @ newline @ ''Name=Zen Browser'' @ newline @ ''Exec='' @ e @ newline
     @ ''X-Flatpak=true'' @ newline"

definition zen_world :: world where
  "zen_world =
     bare_world
       \<lparr>files := [zen_file \<mapsto> \<lparr>text_of = Some (zen_text zen_exec), mode = 6 * 8 ^ 2 + 4 * 8 + 4\<rparr>,
                  zen_file_no_arch \<mapsto>
                    \<lparr>text_of = Some (zen_text zen_exec_no_arch), mode = 6 * 8 ^ 2 + 4 * 8 + 4\<rparr>]\<rparr>"

text \<open>The state of the program before the first load.\<close>

definition initial_state :: app_state where
  "initial_state =
     \<lparr>applications = [], name_var = [], path_var = [], icon_var = [], desc_var = [],
      categories_var = ''Application'', terminal_var = False, dest_var = ''/home/u/Desktop''\<rparr>"

text \<open>
  A world with one application directory and four desktop files in it: two complete
  ones, one without any name, and one whose only name carries the language suffix.
\<close>

definition desktop_text :: "string list \<Rightarrow> string" where
  "desktop_text ls = concat (map (\<lambda>l. l @ newline) (''[Desktop Entry]'' # ls))"

definition plain_file :: "string \<Rightarrow> file_node" where
  "plain_file t = \<lparr>text_of = Some t, mode = 6 * 8 ^ 2 + 4 * 8 + 4\<rparr>"

definition catalog_world :: world where
  "catalog_world =
     bare_world
       \<lparr>files :=
          [''/usr/share/applications/b.desktop'' \<mapsto> plain_file (desktop_text [''Name=Beta'', ''Exec=beta'']),
           ''/usr/share/applications/a.desktop'' \<mapsto> plain_file (desktop_text [''Name=alpha'', ''Exec=alpha'']),
           ''/usr/share/applications/n.desktop'' \<mapsto> plain_file (desktop_text [''Comment=no name'', ''Exec=nn'']),
           ''/usr/share/applications/l.desktop'' \<mapsto> plain_file (desktop_text [''Name[en_US]=Gamma'', ''Exec=gamma''])],
        dirs := {''/usr/share/applications/''},
        glob := (\<lambda>pat. if pat = ''/usr/share/applications/*.desktop''
                        then [''/usr/share/applications/b.desktop'',
                              ''/usr/share/applications/a.desktop'',
                              ''/usr/share/applications/n.desktop'',
                              ''/usr/share/applications/l.desktop'']
                        else [])\<rparr>"


text \<open>
  A world with a desktop directory, a request for a shortcut, and the same world with
  a shortcut of that name already in place.
\<close>

definition desktop_world :: world where
  "desktop_world = bare_world\<lparr>dirs := {''/home/u'', ''/home/u/Desktop''}\<rparr>"

definition request :: app_state where
  "request = initial_state\<lparr>name_var := ''My App'', path_var := ''foo --bar''\<rparr>"

definition old_shortcut :: file_node where
  "old_shortcut = \<lparr>text_of = Some ''old'', mode = 6 * 8 ^ 2 + 4 * 8 + 4\<rparr>"

definition occupied_world :: world where
  "occupied_world = desktop_world\<lparr>files := [''/home/u/Desktop/My App.desktop'' \<mapsto> old_shortcut]\<rparr>"

section \<open>Facts about the string operations\<close>

lemma underscore_not_space: "\<not> isspace CHR ''_''"
  by (simp add: isspace_def code_point_def)

lemma replace_not_underscore:
  "a \<noteq> CHR ''_'' \<Longrightarrow> replace_double_underscore (a # cs) = a # replace_double_underscore cs"
  by (cases cs) simp_all

lemma replace_head: "\<exists>ys. replace_double_underscore (c # cs) = c # ys"
  by (cases cs) auto

lemma replace_lstrip: "replace_double_underscore (lstrip s) = lstrip (replace_double_underscore s)"
proof (induction s)
  case Nil
  then show ?case by (simp add: lstrip_def)
next
  case (Cons c cs)
  show ?case
  proof (cases "isspace c")
    case True
    then have "c \<noteq> CHR ''_''" using underscore_not_space by auto
    then show ?thesis using Cons True by (simp add: lstrip_def replace_not_underscore)
  next
    case False
    obtain ys where "replace_double_underscore (c # cs) = c # ys" using replace_head by blast
    then show ?thesis using False by (simp add: lstrip_def)
  qed
qed

lemma replace_no_underscore: "CHR ''_'' \<notin> set ws \<Longrightarrow> replace_double_underscore ws = ws"
  by (induction ws rule: replace_double_underscore.induct) auto

lemma replace_append:
  "CHR ''_'' \<notin> set ws \<Longrightarrow>
   replace_double_underscore (xs @ ws) = replace_double_underscore xs @ ws"
proof (induction xs rule: replace_double_underscore.induct)
  fix a b cs
  assume "\<not> (a = CHR ''_'' \<and> b = CHR ''_'') \<Longrightarrow> CHR ''_'' \<notin> set ws \<Longrightarrow>
            replace_double_underscore ((b # cs) @ ws) = replace_double_underscore (b # cs) @ ws"
    and "a = CHR ''_'' \<and> b = CHR ''_'' \<Longrightarrow> CHR ''_'' \<notin> set ws \<Longrightarrow>
            replace_double_underscore (cs @ ws) = replace_double_underscore cs @ ws"
    and "CHR ''_'' \<notin> set ws"
  then show "replace_double_underscore ((a # b # cs) @ ws)
               = replace_double_underscore (a # b # cs) @ ws"
    by simp
next
  assume "CHR ''_'' \<notin> set ws"
  then show "replace_double_underscore ([] @ ws) = replace_double_underscore [] @ ws"
    by (simp add: replace_no_underscore)
next
  fix v
  assume "CHR ''_'' \<notin> set ws"
  then show "replace_double_underscore ([v] @ ws) = replace_double_underscore [v] @ ws"
    by (cases ws) (auto simp: replace_no_underscore)
qed

lemma replace_last:
  "xs \<noteq> [] \<Longrightarrow>
   replace_double_underscore xs \<noteq> [] \<and> last (replace_double_underscore xs) = last xs"
  by (induction xs rule: replace_double_underscore.induct) auto

lemma replace_set: "set (replace_double_underscore xs) \<subseteq> set xs"
  by (induction xs rule: replace_double_underscore.induct) auto

lemma rstrip_split: "\<exists>ws. s = rstrip s @ ws \<and> (\<forall>c \<in> set ws. isspace c)"
proof -
  have "rev s = takeWhile isspace (rev s) @ dropWhile isspace (rev s)" by simp
  then have "s = rev (dropWhile isspace (rev s)) @ rev (takeWhile isspace (rev s))"
    by (metis rev_append rev_rev_ident)
  moreover have "\<forall>c \<in> set (rev (takeWhile isspace (rev s))). isspace c"
    by (auto dest: set_takeWhileD)
  ultimately show ?thesis unfolding rstrip_def by blast
qed

lemma rstrip_last: "rstrip s \<noteq> [] \<Longrightarrow> \<not> isspace (last (rstrip s))"
proof -
  assume "rstrip s \<noteq> []"
  then have ne: "dropWhile isspace (rev s) \<noteq> []" by (simp add: rstrip_def)
  then have "\<not> isspace (hd (dropWhile isspace (rev s)))" by (rule hd_dropWhile)
  then show ?thesis using ne by (simp add: rstrip_def last_rev)
qed

lemma rstrip_append_spaces:
  "\<forall>c \<in> set ws. isspace c \<Longrightarrow> xs = [] \<or> \<not> isspace (last xs) \<Longrightarrow> rstrip (xs @ ws) = xs"
proof -
  assume ws: "\<forall>c \<in> set ws. isspace c" and xs: "xs = [] \<or> \<not> isspace (last xs)"
  have "dropWhile isspace (rev ws @ rev xs) = dropWhile isspace (rev xs)"
    by (rule dropWhile_append2) (use ws in auto)
  moreover have "dropWhile isspace (rev xs) = rev xs"
    using xs by (cases "rev xs") (auto simp: last_rev hd_rev)
  ultimately show ?thesis by (simp add: rstrip_def)
qed

lemma replace_rstrip: "replace_double_underscore (rstrip s) = rstrip (replace_double_underscore s)"
proof -
  obtain ws where s: "s = rstrip s @ ws" and ws: "\<forall>c \<in> set ws. isspace c"
    using rstrip_split by blast
  have nu: "CHR ''_'' \<notin> set ws" using ws underscore_not_space by auto
  let ?core = "replace_double_underscore (rstrip s)"
  have "replace_double_underscore s = ?core @ ws"
    using replace_append [OF nu, of "rstrip s"] s by simp
  moreover have "?core = [] \<or> \<not> isspace (last ?core)"
  proof (cases "rstrip s = []")
    case True
    then show ?thesis by simp
  next
    case False
    then show ?thesis using replace_last [OF False] rstrip_last [OF False] by simp
  qed
  ultimately show ?thesis using rstrip_append_spaces [OF ws] by simp
qed

lemma replace_strip: "replace_double_underscore (strip s) = strip (replace_double_underscore s)"
  by (simp add: strip_def replace_rstrip replace_lstrip)

lemma strip_set: "set (strip xs) \<subseteq> set xs"
  unfolding strip_def rstrip_def lstrip_def
  by (auto dest!: set_dropWhileD)

section \<open>The file name of a shortcut\<close>

lemma keep_is_spec: "keep_or_underscore c = (if spec_allowed c then c else CHR ''_'')"
  by (simp add: keep_or_underscore_def spec_allowed_def)

lemma safe_name_refines: "safe_name_of nm = spec_safe_name nm"
  by (simp add: safe_name_of_def spec_safe_name_def replace_strip keep_is_spec [abs_def] Let_def)

lemma keep_allowed: "spec_allowed (keep_or_underscore c)"
  by (simp add: keep_or_underscore_def spec_allowed_def)

lemma fallback_allowed: "\<forall>c \<in> set ''untitled_shortcut''. spec_allowed c"
  by (simp add: spec_allowed_def isalnum_def code_point_def)

lemma safe_name_chars: "list_all spec_allowed (safe_name_of nm)"
proof -
  have "set (replace_double_underscore (strip (map keep_or_underscore nm)))
          \<subseteq> set (map keep_or_underscore nm)"
    using replace_set strip_set by blast
  then have "\<forall>c \<in> set (replace_double_underscore (strip (map keep_or_underscore nm))).
               spec_allowed c"
    using keep_allowed by auto
  then show ?thesis using fallback_allowed
    by (auto simp: safe_name_of_def Let_def list_all_iff)
qed

lemma safe_name_example: "safe_name_of ''My/App:2024'' = ''My_App_2024''"
  by code_simp

lemma safe_name_single_pass: "safe_name_of ''a___b'' = ''a__b''"
  by code_simp

text \<open>
  Claim C5. The file name computed by \<open>create_shortcut\<close> is the one the specification
  describes: every character that is not alphanumeric, a space, a hyphen, an underscore
  or a dot is replaced by an underscore, \<^verbatim>\<open>__\<close> is collapsed to \<^verbatim>\<open>_\<close> in one pass that is
  not repeated (three underscores leave two), surrounding whitespace is trimmed, and an
  empty result is replaced by the fixed name \<^verbatim>\<open>untitled_shortcut\<close>. The source trims
  before it collapses and the specification after; the two orders give the same string.
  Only allowed characters remain, and \<^verbatim>\<open>My/App:2024\<close> becomes \<^verbatim>\<open>My_App_2024\<close>.
\<close>

theorem safe_name_sanitized:
  "safe_name_of nm = spec_safe_name nm
   \<and> list_all spec_allowed (safe_name_of nm)
   \<and> safe_name_of nm \<noteq> []
   \<and> safe_name_of [] = ''untitled_shortcut''
   \<and> safe_name_of ''a___b'' = ''a__b''
   \<and> safe_name_of ''My/App:2024'' = ''My_App_2024''"
proof -
  have "safe_name_of nm \<noteq> []" by (simp add: safe_name_of_def Let_def)
  moreover have "safe_name_of [] = ''untitled_shortcut''" by code_simp
  ultimately show ?thesis
    using safe_name_refines safe_name_chars safe_name_example safe_name_single_pass by simp
qed

section \<open>Resolving an executable\<close>

lemma split_on_first:
  "(case split_on sep t of [] \<Rightarrow> [] | h # _ \<Rightarrow> h) = takeWhile (\<lambda>c. c \<noteq> sep) t"
  by (induction t) (auto split: list.splits)

lemma remove_placeholders_prefix: "remove_placeholders t = strip (before_percent t)"
  by (simp add: remove_placeholders_def before_percent_def split_on_first)

lemma os_access_no_nul: "os_path_exists w c \<Longrightarrow> os_access_x w c = Inr (access_x w c)"
  by (simp add: os_path_exists_def os_access_x_def)

text \<open>
  The call of \<^verbatim>\<open>os.access\<close> outside the \<^verbatim>\<open>try\<close> cannot raise: it is reached only
  for a path that \<^verbatim>\<open>os.path.exists\<close> accepted, which has no NUL character.
\<close>

lemma find_executable_path_cases:
  "find_executable_path w s =
     Inr (case exec_candidate_of s of
            None \<Rightarrow> s
          | Some c \<Rightarrow> if absolute_hit w c then c else lookup_in_path w s c)"
  by (auto simp: find_executable_path_def absolute_hit_def os_access_no_nul split: option.splits)

lemma lookup_in_path_cases:
  "lookup_in_path w s c = s \<or> lookup_hit w c (lookup_in_path w s c)"
  by (auto simp: lookup_in_path_def lookup_hit_def Let_def split: proc_result.splits sum.splits)

lemma lookup_in_path_failed: "lookup_failed w c \<Longrightarrow> lookup_in_path w s c = s"
  by (auto simp: lookup_in_path_def lookup_failed_def Let_def split: proc_result.splits sum.splits)

lemma exec_candidate_no_parts: "exec_parts_of s = [] \<Longrightarrow> exec_candidate_of s = None"
  by (simp add: exec_candidate_of_def)

lemma exec_candidate_first:
  "exec_parts_of s = first # rest \<Longrightarrow>
   exec_candidate_of s =
     (if strip (before_percent first) = [] then None else Some (strip (before_percent first)))"
  by (simp add: exec_candidate_of_def remove_placeholders_prefix Let_def)

lemma candidate_vim: "exec_candidate_of ''vim %F'' = Some ''vim''"
  by code_simp

lemma bare_world_no_hit: "\<not> absolute_hit bare_world ''vim''"
  by (simp add: absolute_hit_def os_path_isabs_def startswith_def)

lemma bare_world_lookup_failed: "lookup_failed bare_world c"
  by (simp add: lookup_failed_def run_which_def bare_world_def)

text \<open>
  Claim C3, as the code has it. \<open>find_executable_path\<close> returns for every input string
  and never raises. Its result is the input string, or the candidate when that is an
  absolute path that exists and that the process may execute, or the stripped output of
  a successful \<^verbatim>\<open>which\<close> that the process may execute; nothing in the code makes that
  output absolute. In every failure case (no token, no candidate left after the field
  codes are removed, and, for a candidate that is not an absolute executable path, a
  lookup that raises, returns a code other than 0 or prints a path that is not
  executable) the result is the input string itself.
\<close>

theorem find_executable_path_degrades:
  "(\<exists>r. find_executable_path w s = Inr r)
   \<and> (\<forall>r. find_executable_path w s = Inr r \<longrightarrow>
          r = s \<or> (\<exists>c. exec_candidate_of s = Some c
                       \<and> (r = c \<and> absolute_hit w c \<or> \<not> absolute_hit w c \<and> lookup_hit w c r)))
   \<and> (exec_parts_of s = [] \<longrightarrow> find_executable_path w s = Inr s)
   \<and> (exec_candidate_of s = None \<longrightarrow> find_executable_path w s = Inr s)
   \<and> (\<forall>c. exec_candidate_of s = Some c \<and> \<not> absolute_hit w c \<and> lookup_failed w c \<longrightarrow>
          find_executable_path w s = Inr s)"
proof (intro conjI allI impI)
  show "\<exists>r. find_executable_path w s = Inr r"
    by (simp add: find_executable_path_cases)
next
  fix r
  assume r: "find_executable_path w s = Inr r"
  show "r = s \<or> (\<exists>c. exec_candidate_of s = Some c
                       \<and> (r = c \<and> absolute_hit w c \<or> \<not> absolute_hit w c \<and> lookup_hit w c r))"
  proof (cases "exec_candidate_of s")
    case None
    then show ?thesis using r by (simp add: find_executable_path_cases)
  next
    case (Some c)
    show ?thesis
    proof (cases "absolute_hit w c")
      case True
      then show ?thesis using r Some by (simp add: find_executable_path_cases)
    next
      case False
      then have "r = lookup_in_path w s c"
        using r Some by (simp add: find_executable_path_cases)
      then show ?thesis using lookup_in_path_cases [of w s c] Some False by auto
    qed
  qed
next
  assume "exec_parts_of s = []"
  then show "find_executable_path w s = Inr s"
    by (simp add: find_executable_path_cases exec_candidate_no_parts)
next
  assume "exec_candidate_of s = None"
  then show "find_executable_path w s = Inr s"
    by (simp add: find_executable_path_cases)
next
  fix c
  assume "exec_candidate_of s = Some c \<and> \<not> absolute_hit w c \<and> lookup_failed w c"
  then show "find_executable_path w s = Inr s"
    by (simp add: find_executable_path_cases lookup_in_path_failed)
qed

theorem find_executable_path_degrades_witness:
  "exec_candidate_of ''vim %F'' = Some ''vim''
   \<and> \<not> absolute_hit bare_world ''vim''
   \<and> lookup_failed bare_world ''vim''
   \<and> find_executable_path bare_world ''vim %F'' = Inr ''vim %F''
   \<and> find_executable_path vim_world ''/usr/bin/vim %F'' = Inr ''/usr/bin/vim''
   \<and> find_executable_path vim_world ''vim %F'' = Inr ''/usr/bin/vim''
   \<and> find_executable_path vim_world ''emacs %F'' = Inr ''emacs %F''"
proof -
  have "find_executable_path bare_world ''vim %F'' = Inr ''vim %F''"
    using find_executable_path_degrades [of bare_world "''vim %F''"]
      candidate_vim bare_world_no_hit bare_world_lookup_failed
    by blast
  moreover have
    "find_executable_path vim_world ''/usr/bin/vim %F'' = Inr ''/usr/bin/vim''
     \<and> find_executable_path vim_world ''vim %F'' = Inr ''/usr/bin/vim''
     \<and> find_executable_path vim_world ''emacs %F'' = Inr ''emacs %F''"
    by code_simp
  ultimately show ?thesis
    using candidate_vim bare_world_no_hit bare_world_lookup_failed by simp
qed

text \<open>
  For the command \<^verbatim>\<open>./run.sh --flag\<close>, \<^verbatim>\<open>which ./run.sh\<close> prints \<^verbatim>\<open>./run.sh\<close>: the
  result is neither an absolute path nor the input string.
\<close>

theorem find_executable_path_relative_result:
  "find_executable_path cwd_world ''./run.sh --flag'' = Inr ''./run.sh''
   \<and> \<not> os_path_isabs ''./run.sh''
   \<and> ''./run.sh'' \<noteq> ''./run.sh --flag''"
  by code_simp

text \<open>
  Claim C10, as the code has it. The first token is cut at its first percent sign,
  wherever it stands, and whitespace around the part before it is trimmed; the trimmed
  part is the candidate that is tested as an absolute path and handed to \<^verbatim>\<open>which\<close>.
  If that part is empty, and so if the token starts with a percent sign, the input
  string is returned unchanged.
\<close>

theorem field_code_stripping:
  "exec_parts_of s = first # rest \<Longrightarrow>
     (strip (before_percent first) \<noteq> [] \<longrightarrow>
        exec_candidate_of s = Some (strip (before_percent first))
        \<and> find_executable_path w s =
            Inr (if absolute_hit w (strip (before_percent first))
                 then strip (before_percent first)
                 else lookup_in_path w s (strip (before_percent first))))
     \<and> (strip (before_percent first) = [] \<longrightarrow> find_executable_path w s = Inr s)
     \<and> (before_percent first = [] \<longrightarrow> find_executable_path w s = Inr s)"
proof -
  assume parts: "exec_parts_of s = first # rest"
  have "strip [] = []" by (simp add: strip_def lstrip_def rstrip_def)
  then show ?thesis
    using exec_candidate_first [OF parts] by (auto simp: find_executable_path_cases)
qed

lemma parts_percent_inside: "exec_parts_of ''a%b --x'' = [''a%b'', ''--x'']"
  by code_simp

lemma strip_percent_inside: "strip (before_percent ''a%b'') = ''a''"
  by code_simp

theorem field_code_stripping_witness:
  "exec_parts_of ''a%b --x'' = [''a%b'', ''--x'']
   \<and> strip (before_percent ''a%b'') = ''a''
   \<and> exec_candidate_of ''a%b --x'' = Some ''a''
   \<and> find_executable_path bare_world ''a%b --x'' = Inr ''a%b --x''"
proof -
  have "\<not> absolute_hit bare_world ''a''"
    by (simp add: absolute_hit_def os_path_isabs_def startswith_def)
  then show ?thesis
    using field_code_stripping [OF parts_percent_inside, of bare_world]
      parts_percent_inside strip_percent_inside
      lookup_in_path_failed [OF bare_world_lookup_failed, of "''a%b --x''" "''a''"]
    by simp
qed

text \<open>
  The token of the Exec string \<^verbatim>\<open>"a %f"\<close> is \<^verbatim>\<open>a %f\<close>; the part before its percent
  sign ends in a space, and the candidate is that part without the space.
\<close>

theorem candidate_is_trimmed:
  "exec_parts_of quoted_exec = [''a %f'']
   \<and> before_percent ''a %f'' = ''a ''
   \<and> exec_candidate_of quoted_exec = Some ''a''
   \<and> ''a'' \<noteq> ''a ''"
  by code_simp

section \<open>Parsing a desktop file\<close>

lemma lang_code_eq: "lang_code w = lang_without_encoding w"
  by (simp add: lang_code_def lang_without_encoding_def environ_get_def split_on_first)

lemma localized_eq: "localized w d k = preferred d (lang_without_encoding w) k"
  by (simp add: localized_def preferred_def dict_get_def lang_code_eq split: option.splits)

lemma entry_name_eq:
  "entry_name w d =
     (if preferred d (lang_without_encoding w) ''Name'' = []
      then (case d ''GenericName'' of Some v \<Rightarrow> v | None \<Rightarrow> [])
      else preferred d (lang_without_encoding w) ''Name'')"
  by (simp add: entry_name_def localized_eq dict_get_def Let_def)

text \<open>
  No exception leaves the body of \<open>parse_desktop_file\<close> once the file is read: the only
  call that could raise is \<open>find_executable_path\<close>, which does not.
\<close>

lemma parse_content_total: "\<exists>info. parse_content w fp content = Inr info"
  by (auto simp: parse_content_def Let_def find_executable_path_cases split: option.splits)

lemma parse_content_name:
  "parse_content w fp content = Inr info \<Longrightarrow> name info = entry_name w (desktop_dict_of content)"
  by (auto simp: parse_content_def Let_def find_executable_path_cases
           split: option.splits if_splits)

lemma parse_content_exec:
  "parse_content w fp content = Inr info \<Longrightarrow>
   exec info = dict_get (desktop_dict_of content) ''Exec'' []"
  by (auto simp: parse_content_def Let_def find_executable_path_cases
           split: option.splits if_splits)

lemma parse_content_desktop_file:
  "parse_content w fp content = Inr info \<Longrightarrow> desktop_file info = fp"
  by (auto simp: parse_content_def Let_def find_executable_path_cases
           split: option.splits if_splits)

lemma parse_content_comment:
  "parse_content w fp content = Inr info \<Longrightarrow>
   comment info = localized w (desktop_dict_of content) ''Comment''"
  by (auto simp: parse_content_def Let_def find_executable_path_cases
           split: option.splits if_splits)

lemma parse_content_icon:
  "parse_content w fp content = Inr info \<Longrightarrow>
   icon info =
     (case (if is_flatpak w (desktop_dict_of content) fp
            then flatpak_id_of (dict_get (desktop_dict_of content) ''Exec'' []) else None) of
        Some fid \<Rightarrow>
          if localized w (desktop_dict_of content) ''Icon'' = []
             \<or> localized w (desktop_dict_of content) ''Icon''
                 = exec_basename (dict_get (desktop_dict_of content) ''Exec'' [])
          then fid else localized w (desktop_dict_of content) ''Icon''
      | None \<Rightarrow> localized w (desktop_dict_of content) ''Icon'')"
  by (auto simp: parse_content_def Let_def find_executable_path_cases flatpak_id_of_def
           split: option.splits if_splits)

lemma parse_content_flatpak:
  "parse_content w fp content = Inr info \<Longrightarrow> is_flatpak w (desktop_dict_of content) fp \<Longrightarrow>
   resolved_path info =
     (case flatpak_id_of (exec info) of
        Some fid \<Rightarrow> ''flatpak run '' @ fid
      | None \<Rightarrow> exec info)"
  by (auto simp: parse_content_def Let_def flatpak_id_of_def split: option.splits if_splits)

lemma parse_desktop_file_read:
  "read_text_file w fp = Inr content \<Longrightarrow>
   \<exists>info. parse_desktop_file w fp = Some info \<and> parse_content w fp content = Inr info"
  using parse_content_total [of w fp content] by (auto simp: parse_desktop_file_def)

lemma parse_desktop_file_Some:
  "parse_desktop_file w fp = Some info \<Longrightarrow>
   \<exists>content. read_text_file w fp = Inr content \<and> parse_content w fp content = Inr info"
  by (auto simp: parse_desktop_file_def split: sum.splits)

text \<open>
  Claim C1 fails on the example that the source itself gives. The pattern accepts in a
  flag only letters, digits, \<^verbatim>\<open>=\<close>, \<^verbatim>\<open>-\<close> and \<^verbatim>\<open>.\<close>, so the flag \<^verbatim>\<open>--arch=x86_64\<close> with
  its underscore is not a flag for it, and it is not an application ID either, because
  of its \<^verbatim>\<open>=\<close>. The search finds nothing, and the resolved command of the Flatpak entry
  is the raw Exec string, not \<^verbatim>\<open>flatpak run app.zen_browser.zen\<close>. Without the
  \<^verbatim>\<open>--arch\<close> flag the same line resolves as the comment in the source says.
\<close>

theorem flatpak_example_not_resolved:
  "flatpak_id_of zen_exec = None
   \<and> map_option resolved_path (parse_desktop_file zen_world zen_file) = Some zen_exec
   \<and> zen_exec \<noteq> ''flatpak run app.zen_browser.zen''
   \<and> map_option resolved_path (parse_desktop_file zen_world zen_file_no_arch)
       = Some ''flatpak run app.zen_browser.zen''"
  by code_simp

text \<open>
  Claim C2, as the code has it. For every desktop file that can be read, the parser
  returns an entry. The language code is the value of \<^verbatim>\<open>LANG\<close> up to its first dot (so
  \<^verbatim>\<open>en_US\<close> when \<^verbatim>\<open>LANG\<close> is not set, and \<^verbatim>\<open>fr_FR\<close> for \<^verbatim>\<open>fr_FR.UTF-8\<close>). The name, the
  comment and the icon are the values of the key with that code as its suffix when
  the file has it, and of the key without suffix otherwise; an empty name is replaced
  by the value of \<^verbatim>\<open>GenericName\<close>; for a Flatpak entry whose ID is found, an icon that
  is empty or equal to the last path component of the Exec string is replaced by the ID.
\<close>

theorem locale_preference:
  "read_text_file w fp = Inr content \<Longrightarrow> d = desktop_dict_of content \<Longrightarrow>
   lc = lang_without_encoding w \<Longrightarrow>
   \<exists>info. parse_desktop_file w fp = Some info
     \<and> name info =
         (if preferred d lc ''Name'' = []
          then (case d ''GenericName'' of Some v \<Rightarrow> v | None \<Rightarrow> [])
          else preferred d lc ''Name'')
     \<and> comment info = preferred d lc ''Comment''
     \<and> icon info =
         (case (if is_flatpak w d fp then flatpak_id_of (dict_get d ''Exec'' []) else None) of
            Some fid \<Rightarrow>
              if preferred d lc ''Icon'' = []
                 \<or> preferred d lc ''Icon'' = exec_basename (dict_get d ''Exec'' [])
              then fid else preferred d lc ''Icon''
          | None \<Rightarrow> preferred d lc ''Icon'')
     \<and> (environ w ''LANG'' = None \<longrightarrow> lc = ''en_US'')
     \<and> (environ w ''LANG'' = Some ''fr_FR.UTF-8'' \<longrightarrow> lc = ''fr_FR'')"
proof -
  assume rd: "read_text_file w fp = Inr content"
    and d: "d = desktop_dict_of content" and lc: "lc = lang_without_encoding w"
  obtain info where some: "parse_desktop_file w fp = Some info"
    and pc: "parse_content w fp content = Inr info"
    using parse_desktop_file_read [OF rd] by blast
  have "name info =
         (if preferred d lc ''Name'' = []
          then (case d ''GenericName'' of Some v \<Rightarrow> v | None \<Rightarrow> [])
          else preferred d lc ''Name'')"
    using parse_content_name [OF pc] d lc by (simp add: entry_name_eq)
  moreover have "comment info = preferred d lc ''Comment''"
    using parse_content_comment [OF pc] d lc by (simp add: localized_eq)
  moreover have "icon info =
         (case (if is_flatpak w d fp then flatpak_id_of (dict_get d ''Exec'' []) else None) of
            Some fid \<Rightarrow>
              if preferred d lc ''Icon'' = []
                 \<or> preferred d lc ''Icon'' = exec_basename (dict_get d ''Exec'' [])
              then fid else preferred d lc ''Icon''
          | None \<Rightarrow> preferred d lc ''Icon'')"
    using parse_content_icon [OF pc] unfolding d lc localized_eq by simp
  moreover have "environ w ''LANG'' = None \<longrightarrow> lc = ''en_US''"
    using lc by (simp add: lang_without_encoding_def)
  moreover have "environ w ''LANG'' = Some ''fr_FR.UTF-8'' \<longrightarrow> lc = ''fr_FR''"
    using lc by (simp add: lang_without_encoding_def)
  ultimately show ?thesis using some
    by (intro exI [of _ info]) (rule conjI | assumption)+
qed

lemma french_read:
  "read_text_file french_world ''/usr/share/applications/fr_FR.desktop'' = Inr name_fr_FR_text"
  by code_simp

lemma french_preferred_name:
  "preferred (desktop_dict_of name_fr_FR_text) (lang_without_encoding french_world) ''Name''
     = ''Fou''"
  by code_simp

theorem locale_preference_witness:
  "read_text_file french_world ''/usr/share/applications/fr_FR.desktop'' = Inr name_fr_FR_text
   \<and> environ french_world ''LANG'' = Some ''fr_FR.UTF-8''
   \<and> lang_without_encoding french_world = ''fr_FR''
   \<and> desktop_dict_of name_fr_FR_text ''Name'' = Some ''Foo''
   \<and> desktop_dict_of name_fr_FR_text ''Name[fr_FR]'' = Some ''Fou''
   \<and> map_option name (parse_desktop_file french_world ''/usr/share/applications/fr_FR.desktop'')
       = Some ''Fou''"
proof -
  have env: "environ french_world ''LANG'' = Some ''fr_FR.UTF-8''"
    by (simp add: french_world_def)
  have keys: "desktop_dict_of name_fr_FR_text ''Name'' = Some ''Foo''
              \<and> desktop_dict_of name_fr_FR_text ''Name[fr_FR]'' = Some ''Fou''"
    by code_simp
  obtain info where
    "parse_desktop_file french_world ''/usr/share/applications/fr_FR.desktop'' = Some info"
    and "name info =
         (if preferred (desktop_dict_of name_fr_FR_text) (lang_without_encoding french_world)
               ''Name'' = []
          then (case desktop_dict_of name_fr_FR_text ''GenericName'' of
                  Some v \<Rightarrow> v | None \<Rightarrow> [])
          else preferred (desktop_dict_of name_fr_FR_text) (lang_without_encoding french_world)
                 ''Name'')"
    and "lang_without_encoding french_world = ''fr_FR''"
    using locale_preference [OF french_read refl refl] env by blast
  then show ?thesis using french_read env keys french_preferred_name by simp
qed

text \<open>
  With \<^verbatim>\<open>LANG=fr_FR.UTF-8\<close> the key \<^verbatim>\<open>Name[fr]\<close> is not consulted: the file with
  \<^verbatim>\<open>Name=Foo\<close> and \<^verbatim>\<open>Name[fr]=Fou\<close> is named \<^verbatim>\<open>Foo\<close>.
\<close>

theorem name_fr_not_preferred:
  "environ french_world ''LANG'' = Some ''fr_FR.UTF-8''
   \<and> desktop_dict_of name_fr_text ''Name'' = Some ''Foo''
   \<and> desktop_dict_of name_fr_text ''Name[fr]'' = Some ''Fou''
   \<and> map_option name (parse_desktop_file french_world ''/usr/share/applications/fr.desktop'')
       = Some ''Foo''
   \<and> ''Foo'' \<noteq> ''Fou''"
  by code_simp

section \<open>Loading the catalog\<close>

lemma scan_files_set:
  "set (scan_files w apps fps) =
     set apps \<union> {info. \<exists>fp \<in> set fps. parse_desktop_file w fp = Some info
                           \<and> name info \<noteq> [] \<and> exec info \<noteq> []}"
  by (induction fps arbitrary: apps) (auto split: option.splits)

lemma scan_patterns_set:
  "set (scan_patterns w apps pats) =
     set apps \<union> {info. \<exists>pat \<in> set pats. \<exists>fp \<in> set (glob w pat).
                           parse_desktop_file w fp = Some info
                           \<and> name info \<noteq> [] \<and> exec info \<noteq> []}"
  by (induction pats arbitrary: apps) (auto simp: scan_files_set)

lemma catalog_member:
  "e \<in> set (applications (load_applications w st)) \<Longrightarrow>
   \<exists>fp. parse_desktop_file w fp = Some e \<and> name e \<noteq> [] \<and> exec e \<noteq> []"
  by (auto simp: load_applications_def scan_patterns_set)

lemma catalog_sorted:
  "sorted (map (\<lambda>e. lower (name e)) (applications (load_applications w st)))"
  by (simp add: load_applications_def)

lemma lacks_name_empty: "lacks_name w d \<Longrightarrow> entry_name w d = []"
  by (simp add: lacks_name_def entry_name_eq preferred_def)

lemma parse_desktop_file_fields:
  "parse_desktop_file w fp = Some e \<Longrightarrow> read_text_file w fp = Inr content \<Longrightarrow>
   name e = entry_name w (desktop_dict_of content)
   \<and> exec e = dict_get (desktop_dict_of content) ''Exec'' []
   \<and> desktop_file e = fp"
  using parse_content_name parse_content_exec parse_content_desktop_file
  by (fastforce dest: parse_desktop_file_Some)

lemma parse_desktop_file_source: "parse_desktop_file w fp = Some e \<Longrightarrow> desktop_file e = fp"
  using parse_content_desktop_file by (fastforce dest: parse_desktop_file_Some)

text \<open>
  Claim C7, as the code has it. After every load, and so after every refresh, whatever
  the state before, every entry of the catalog has a name and an Exec value that are
  not empty, and the catalog is sorted by the names in lower case. A file that can be
  read and has no name under \<^verbatim>\<open>Name[<lang_code>]\<close>, \<^verbatim>\<open>Name\<close> and \<^verbatim>\<open>GenericName\<close>, or no
  \<^verbatim>\<open>Exec\<close>, has no entry in the catalog.
\<close>

theorem catalog_invariant:
  "(\<forall>e \<in> set (applications (load_applications w st)). name e \<noteq> [] \<and> exec e \<noteq> [])
   \<and> sorted (map (\<lambda>e. lower (name e)) (applications (load_applications w st)))
   \<and> refresh_applications w st = load_applications w st
   \<and> (\<forall>fp content.
         read_text_file w fp = Inr content
         \<and> (lacks_name w (desktop_dict_of content) \<or> desktop_dict_of content ''Exec'' = None)
         \<longrightarrow> fp \<notin> desktop_file ` set (applications (load_applications w st)))"
proof (intro conjI ballI allI impI)
  fix e
  assume "e \<in> set (applications (load_applications w st))"
  then show "name e \<noteq> []" and "exec e \<noteq> []" using catalog_member by blast+
next
  show "sorted (map (\<lambda>e. lower (name e)) (applications (load_applications w st)))"
    by (rule catalog_sorted)
next
  show "refresh_applications w st = load_applications w st"
    by (simp add: refresh_applications_def)
next
  fix fp content
  assume h: "read_text_file w fp = Inr content
             \<and> (lacks_name w (desktop_dict_of content) \<or> desktop_dict_of content ''Exec'' = None)"
  show "fp \<notin> desktop_file ` set (applications (load_applications w st))"
  proof
    assume "fp \<in> desktop_file ` set (applications (load_applications w st))"
    then obtain e where e: "e \<in> set (applications (load_applications w st))"
      and fp: "desktop_file e = fp" by auto
    obtain fp' where p: "parse_desktop_file w fp' = Some e"
      and ne: "name e \<noteq> []" "exec e \<noteq> []"
      using catalog_member [OF e] by blast
    have "fp' = fp" using parse_desktop_file_source [OF p] fp by simp
    then have f: "name e = entry_name w (desktop_dict_of content)"
      "exec e = dict_get (desktop_dict_of content) ''Exec'' []"
      using parse_desktop_file_fields [of w fp e content] p h by auto
    from h have "lacks_name w (desktop_dict_of content) \<or> desktop_dict_of content ''Exec'' = None"
      by simp
    then show False
    proof
      assume "lacks_name w (desktop_dict_of content)"
      then show False using lacks_name_empty f ne by simp
    next
      assume "desktop_dict_of content ''Exec'' = None"
      then show False using f ne by (simp add: dict_get_def)
    qed
  qed
qed

lemma catalog_world_files:
  "map desktop_file (applications (load_applications catalog_world initial_state))
     = [''/usr/share/applications/a.desktop'', ''/usr/share/applications/b.desktop'',
        ''/usr/share/applications/l.desktop'']"
  by code_simp

lemma catalog_world_keys:
  "map (\<lambda>e. lower (name e)) (applications (load_applications catalog_world initial_state))
     = [''alpha'', ''beta'', ''gamma'']"
  by code_simp

lemma catalog_world_no_name:
  "read_text_file catalog_world ''/usr/share/applications/n.desktop''
     = Inr (desktop_text [''Comment=no name'', ''Exec=nn''])
   \<and> lacks_name catalog_world (desktop_dict_of (desktop_text [''Comment=no name'', ''Exec=nn'']))"
  by code_simp

theorem catalog_invariant_witness:
  "read_text_file catalog_world ''/usr/share/applications/n.desktop''
     = Inr (desktop_text [''Comment=no name'', ''Exec=nn''])
   \<and> lacks_name catalog_world (desktop_dict_of (desktop_text [''Comment=no name'', ''Exec=nn'']))
   \<and> ''/usr/share/applications/n.desktop''
        \<notin> desktop_file ` set (applications (load_applications catalog_world initial_state))
   \<and> sorted [''alpha'', ''beta'', ''gamma'']
   \<and> map desktop_file (applications (load_applications catalog_world initial_state))
        = [''/usr/share/applications/a.desktop'', ''/usr/share/applications/b.desktop'',
           ''/usr/share/applications/l.desktop'']"
proof -
  have "''/usr/share/applications/n.desktop''
          \<notin> desktop_file ` set (applications (load_applications catalog_world initial_state))"
    using catalog_invariant [of catalog_world initial_state] catalog_world_no_name by blast
  moreover have "sorted [''alpha'', ''beta'', ''gamma'']"
    using catalog_invariant [of catalog_world initial_state] catalog_world_keys by simp
  ultimately show ?thesis using catalog_world_no_name catalog_world_files by simp
qed

text \<open>
  A file with neither \<^verbatim>\<open>Name\<close> nor \<^verbatim>\<open>GenericName\<close> whose name stands under
  \<^verbatim>\<open>Name[en_US]\<close> has an entry in the catalog: its name is the localized one.
\<close>

theorem localized_name_is_listed:
  "desktop_dict_of (desktop_text [''Name[en_US]=Gamma'', ''Exec=gamma'']) ''Name'' = None
   \<and> desktop_dict_of (desktop_text [''Name[en_US]=Gamma'', ''Exec=gamma'']) ''GenericName'' = None
   \<and> read_text_file catalog_world ''/usr/share/applications/l.desktop''
       = Inr (desktop_text [''Name[en_US]=Gamma'', ''Exec=gamma''])
   \<and> map name (applications (load_applications catalog_world initial_state))
       = [''alpha'', ''Beta'', ''Gamma'']
   \<and> ''/usr/share/applications/l.desktop''
       \<in> desktop_file ` set (applications (load_applications catalog_world initial_state))"
proof -
  have "''/usr/share/applications/l.desktop''
          \<in> set (map desktop_file (applications (load_applications catalog_world initial_state)))"
    unfolding catalog_world_files by simp
  moreover have
    "desktop_dict_of (desktop_text [''Name[en_US]=Gamma'', ''Exec=gamma'']) ''Name'' = None
     \<and> desktop_dict_of (desktop_text [''Name[en_US]=Gamma'', ''Exec=gamma'']) ''GenericName'' = None
     \<and> read_text_file catalog_world ''/usr/share/applications/l.desktop''
         = Inr (desktop_text [''Name[en_US]=Gamma'', ''Exec=gamma''])
     \<and> map name (applications (load_applications catalog_world initial_state))
         = [''alpha'', ''Beta'', ''Gamma'']"
    by code_simp
  ultimately show ?thesis by simp
qed

section \<open>The directories that are scanned\<close>

text \<open>
  What the set does: provided its iteration yields each member once, the list that the
  loop visits has no string twice and holds exactly the candidate strings that exist.
\<close>

lemma scan_dirs_strings:
  "\<forall>xs. distinct (set_order w xs) \<and> set (set_order w xs) = set xs \<Longrightarrow>
   distinct (scan_dirs w)
   \<and> set (scan_dirs w) = {d \<in> set (candidate_dirs w). os_path_exists w d}"
  by (auto simp: scan_dirs_def)

text \<open>
  The strings that the loop over \<^verbatim>\<open>XDG_DATA_DIRS\<close> appends end in \<^verbatim>\<open>applications\<close>
  without a slash, and the strings of the fixed list end in a slash: none of the former
  is one of the latter, so the set never merges the two spellings of one directory.
\<close>

lemma xdg_dir_not_builtin: "os_path_join d ''applications'' \<notin> set (builtin_dirs w)"
proof -
  have "last (os_path_join d ''applications'') = CHR ''s''"
    by (simp add: os_path_join_def startswith_def)
  moreover have "\<forall>b \<in> set (builtin_dirs w). last b = CHR ''/''"
    by (simp add: builtin_dirs_def)
  ultimately show ?thesis by auto
qed


section \<open>Writing a shortcut\<close>

lemma lower_bool: "lower (str_of_bool b) = (if b then ''true'' else ''false'')"
proof (cases b)
  case True
  have "lower ''True'' = ''true''" by code_simp
  then show ?thesis using True by (simp add: str_of_bool_def)
next
  case False
  have "lower ''False'' = ''false''" by code_simp
  then show ?thesis using False by (simp add: str_of_bool_def)
qed

lemma desktop_content_rendered:
  "desktop_content st nm ex wd =
     render_entries (spec_entries nm ex wd (strip (desc_var st)) (strip (icon_var st))
                       (strip (categories_var st)) (terminal_var st))"
  by (simp add: desktop_content_def render_entries_def spec_entries_def render_line_def
        lower_bool Let_def)

lemma spec_entries_order: "subseq (map fst (spec_entries nm ex wd dsc ic cats term)) key_order"
  by (simp add: spec_entries_def key_order_def)

lemma write_text_done:
  "write_text w p txt = (w2, None) \<Longrightarrow>
   \<exists>m. files w2 = (files w)(p \<mapsto> \<lparr>text_of = Some txt, mode = m\<rparr>)"
  by (auto simp: write_text_def Let_def split: if_splits)

lemma os_chmod_done:
  "os_chmod w p m = (w3, None) \<Longrightarrow>
   \<exists>f. files w p = Some f \<and> files w3 = (files w)(p \<mapsto> f\<lparr>mode := m\<rparr>)"
  by (auto simp: os_chmod_def split: if_splits option.splits)

lemma create_shortcut_created:
  "create_shortcut w st answer = (w', Created p) \<Longrightarrow>
   \<exists>wd w1 w2.
     working_dir_of w (strip (path_var st)) = Inr wd
     \<and> p = target_path w st
     \<and> write_text w1 p (desktop_content st (strip (name_var st)) (strip (path_var st)) wd)
         = (w2, None)
     \<and> os_chmod w2 p mode_0o755 = (w', None)"
  by (auto simp: create_shortcut_def target_path_def Let_def prod_eq_iff
           split: if_splits sum.splits option.splits)

lemma created_file:
  "create_shortcut w st answer = (w', Created p) \<Longrightarrow>
   \<exists>wd. working_dir_of w (strip (path_var st)) = Inr wd
      \<and> files w' p =
          Some \<lparr>text_of = Some (desktop_content st (strip (name_var st)) (strip (path_var st)) wd),
                mode = mode_0o755\<rparr>"
proof -
  assume "create_shortcut w st answer = (w', Created p)"
  then obtain wd w1 w2 where wd: "working_dir_of w (strip (path_var st)) = Inr wd"
    and wr: "write_text w1 p (desktop_content st (strip (name_var st)) (strip (path_var st)) wd)
               = (w2, None)"
    and ch: "os_chmod w2 p mode_0o755 = (w', None)"
    using create_shortcut_created by blast
  obtain m where "files w2 p =
      Some \<lparr>text_of = Some (desktop_content st (strip (name_var st)) (strip (path_var st)) wd),
            mode = m\<rparr>"
    using write_text_done [OF wr] by auto
  then have "files w' p =
      Some \<lparr>text_of = Some (desktop_content st (strip (name_var st)) (strip (path_var st)) wd),
            mode = mode_0o755\<rparr>"
    using os_chmod_done [OF ch] by auto
  then show ?thesis using wd by blast
qed

text \<open>
  Claim C4. After every successful creation the file holds the header
  \<^verbatim>\<open>[Desktop Entry]\<close> and then one line for each key, in the fixed order
  \<^verbatim>\<open>Version=1.0\<close>, \<^verbatim>\<open>Type=Application\<close>, \<^verbatim>\<open>Name\<close>, \<^verbatim>\<open>Exec\<close>, \<^verbatim>\<open>Path\<close> only if a
  working directory was determined, \<^verbatim>\<open>Comment\<close>, \<^verbatim>\<open>Icon\<close> and \<^verbatim>\<open>Categories\<close> only if
  the field is not blank, the categories with a semicolon appended, \<^verbatim>\<open>Terminal\<close> as
  \<^verbatim>\<open>true\<close> or \<^verbatim>\<open>false\<close>, and \<^verbatim>\<open>StartupNotify=true\<close>. The keys of the file are a
  subsequence of the fixed order: none is reordered and none is added.
\<close>

theorem serialization_order:
  "create_shortcut w st answer = (w', Created p) \<Longrightarrow>
   \<exists>wd. working_dir_of w (strip (path_var st)) = Inr wd
      \<and> map_option text_of (files w' p) =
          Some (Some (render_entries
                        (spec_entries (strip (name_var st)) (strip (path_var st)) wd
                           (strip (desc_var st)) (strip (icon_var st))
                           (strip (categories_var st)) (terminal_var st))))
      \<and> subseq (map fst (spec_entries (strip (name_var st)) (strip (path_var st)) wd
                            (strip (desc_var st)) (strip (icon_var st))
                            (strip (categories_var st)) (terminal_var st)))
                key_order"
proof -
  assume "create_shortcut w st answer = (w', Created p)"
  then obtain wd where "working_dir_of w (strip (path_var st)) = Inr wd"
    and "files w' p =
          Some \<lparr>text_of = Some (desktop_content st (strip (name_var st)) (strip (path_var st)) wd),
                mode = mode_0o755\<rparr>"
    using created_file by blast
  then show ?thesis
    using spec_entries_order by (auto simp: desktop_content_rendered)
qed

lemma request_created:
  "create_shortcut desktop_world request True
     = (fst (create_shortcut desktop_world request True),
        Created ''/home/u/Desktop/My App.desktop'')"
proof -
  have "snd (create_shortcut desktop_world request True) = Created ''/home/u/Desktop/My App.desktop''"
    by code_simp
  then show ?thesis by (simp add: prod_eq_iff)
qed

lemma request_working_dir: "working_dir_of desktop_world (strip (path_var request)) = Inr []"
  by code_simp

lemma request_fields:
  "strip (name_var request) = ''My App'' \<and> strip (path_var request) = ''foo --bar''
   \<and> strip (desc_var request) = [] \<and> strip (icon_var request) = []
   \<and> strip (categories_var request) = ''Application'' \<and> terminal_var request = False"
  by code_simp

lemma request_rendered:
  "render_entries (spec_entries ''My App'' ''foo --bar'' [] [] [] ''Application'' False)
     = ''[Desktop Entry]'' @ newline @ ''Version=1.0'' @ newline @ ''Type=Application'' @ newline
       @ ''Name=My App'' @ newline @ ''Exec=foo --bar'' @ newline
       @ ''Categories=Application;'' @ newline @ ''Terminal=false'' @ newline
       @ ''StartupNotify=true'' @ newline"
  by code_simp

theorem serialization_order_witness:
  "snd (create_shortcut desktop_world request True) = Created ''/home/u/Desktop/My App.desktop''
   \<and> map_option text_of
        (files (fst (create_shortcut desktop_world request True)) ''/home/u/Desktop/My App.desktop'')
      = Some (Some (''[Desktop Entry]'' @ newline @ ''Version=1.0'' @ newline
                    @ ''Type=Application'' @ newline @ ''Name=My App'' @ newline
                    @ ''Exec=foo --bar'' @ newline @ ''Categories=Application;'' @ newline
                    @ ''Terminal=false'' @ newline @ ''StartupNotify=true'' @ newline))"
proof -
  obtain wd where "working_dir_of desktop_world (strip (path_var request)) = Inr wd"
    and "map_option text_of
           (files (fst (create_shortcut desktop_world request True))
              ''/home/u/Desktop/My App.desktop'') =
         Some (Some (render_entries
                       (spec_entries (strip (name_var request)) (strip (path_var request)) wd
                          (strip (desc_var request)) (strip (icon_var request))
                          (strip (categories_var request)) (terminal_var request))))"
    using serialization_order [OF request_created] by blast
  then show ?thesis
    using request_created request_working_dir request_fields request_rendered
    by (simp add: prod_eq_iff)
qed

text \<open>
  Claim C6, as the code has it. After every successful creation the permission bits of
  the file are \<^verbatim>\<open>0o755\<close>: the owner may read, write and execute; the group and the
  others may read and execute, and may not write.
\<close>

theorem created_mode:
  "create_shortcut w st answer = (w', Created p) \<Longrightarrow>
   map_option mode (files w' p) = Some mode_0o755
   \<and> perm_digit mode_0o755 2 = 7 \<and> perm_digit mode_0o755 1 = 5 \<and> perm_digit mode_0o755 0 = 5
   \<and> may_read (perm_digit mode_0o755 2) \<and> may_write (perm_digit mode_0o755 2)
   \<and> may_execute (perm_digit mode_0o755 2)
   \<and> may_read (perm_digit mode_0o755 1) \<and> \<not> may_write (perm_digit mode_0o755 1)
   \<and> may_execute (perm_digit mode_0o755 1)
   \<and> may_read (perm_digit mode_0o755 0) \<and> \<not> may_write (perm_digit mode_0o755 0)
   \<and> may_execute (perm_digit mode_0o755 0)"
proof -
  assume "create_shortcut w st answer = (w', Created p)"
  then have "map_option mode (files w' p) = Some mode_0o755"
    using created_file by fastforce
  moreover have "perm_digit mode_0o755 2 = 7" "perm_digit mode_0o755 1 = 5"
    "perm_digit mode_0o755 0 = 5"
    by (simp_all add: perm_digit_def mode_0o755_def)
  ultimately show ?thesis
    by (simp add: may_read_def may_write_def may_execute_def)
qed

theorem created_mode_witness:
  "snd (create_shortcut desktop_world request True) = Created ''/home/u/Desktop/My App.desktop''
   \<and> map_option mode
        (files (fst (create_shortcut desktop_world request True)) ''/home/u/Desktop/My App.desktop'')
      = Some mode_0o755
   \<and> mode_0o755 = 493"
proof -
  have "mode_0o755 = 493" by (simp add: mode_0o755_def)
  then show ?thesis using created_mode [OF request_created] request_created
    by (simp add: prod_eq_iff)
qed

text \<open>
  The file of a shortcut that was created cannot be written by the group or by the
  others.
\<close>

theorem group_cannot_write:
  "snd (create_shortcut desktop_world request True) = Created ''/home/u/Desktop/My App.desktop''
   \<and> map_option mode
        (files (fst (create_shortcut desktop_world request True)) ''/home/u/Desktop/My App.desktop'')
      = Some 493
   \<and> \<not> may_write (perm_digit 493 1)
   \<and> \<not> may_write (perm_digit 493 0)"
  by code_simp

text \<open>
  Claim C8. When the target file exists and the user declines to overwrite it,
  \<open>create_shortcut\<close> leaves every file as it was, content and permission bits, and
  writes no new file. With a name and a command that are not blank and a destination
  directory that exists, as it does in a file system that holds the target, nothing at
  all changes and the call ends as a cancellation.
\<close>

theorem declined_overwrite:
  "os_path_exists w (target_path w st) \<Longrightarrow>
   files (fst (create_shortcut w st False)) = files w
   \<and> (strip (name_var st) \<noteq> [] \<and> strip (path_var st) \<noteq> []
       \<and> os_path_exists w (path_str w (dest_var st))
       \<longrightarrow> create_shortcut w st False = (w, Cancelled))"
proof -
  assume ex: "os_path_exists w (target_path w st)"
  have working: "\<exists>wd. working_dir_of w s = Inr wd" for s
    by (auto simp: working_dir_of_def find_executable_path_cases)
  have grown: "os_path_exists (fst (mkdir_parents w d)) (target_path w st)" for d
    using ex by (auto simp: mkdir_parents_def os_path_exists_def)
  have kept: "files (fst (mkdir_parents w d)) = files w" for d
    by (simp add: mkdir_parents_def)
  show ?thesis
    using ex working [of "strip (path_var st)"] grown kept
    by (auto simp: create_shortcut_def target_path_def Let_def split: option.splits)
qed

lemma occupied_target:
  "os_path_exists occupied_world (target_path occupied_world request)
   \<and> strip (name_var request) \<noteq> [] \<and> strip (path_var request) \<noteq> []
   \<and> os_path_exists occupied_world (path_str occupied_world (dest_var request))"
  by code_simp

lemma occupied_target_path:
  "target_path occupied_world request = ''/home/u/Desktop/My App.desktop''"
  by code_simp

theorem declined_overwrite_witness:
  "os_path_exists occupied_world (target_path occupied_world request)
   \<and> target_path occupied_world request = ''/home/u/Desktop/My App.desktop''
   \<and> create_shortcut occupied_world request False = (occupied_world, Cancelled)
   \<and> files (fst (create_shortcut occupied_world request False)) ''/home/u/Desktop/My App.desktop''
       = Some old_shortcut"
proof -
  have ex: "os_path_exists occupied_world (target_path occupied_world request)"
    using occupied_target by simp
  have cancelled: "create_shortcut occupied_world request False = (occupied_world, Cancelled)"
    using declined_overwrite [OF ex] occupied_target by simp
  have old: "files occupied_world ''/home/u/Desktop/My App.desktop'' = Some old_shortcut"
    by (simp add: occupied_world_def desktop_world_def)
  show ?thesis
  proof (intro conjI)
    show "os_path_exists occupied_world (target_path occupied_world request)" by (rule ex)
    show "target_path occupied_world request = ''/home/u/Desktop/My App.desktop''"
      by (rule occupied_target_path)
    show "create_shortcut occupied_world request False = (occupied_world, Cancelled)"
      by (rule cancelled)
    show "files (fst (create_shortcut occupied_world request False))
            ''/home/u/Desktop/My App.desktop'' = Some old_shortcut"
      unfolding cancelled using old by simp
  qed
qed


end
